theory Spec2Isabelle
  imports
    Complex_Main
    "HOL-Library.Sublist"
    "HOL-Library.List_Lexorder"
    "HOL-Library.Char_ord"
begin

text \<open>
  The data-cleaning workbench and the statistical profiler of the NIKA analytics dashboard,
  as HOL functions: the statistics of Analytics.tsx, the two column-type inferences, the
  action queue with its redundancy check, the executor that folds the queued actions over
  the rows of a dataset while tracking changed cells, and the CSV export. The executor is
  modelled twice, on rows as values and on rows as objects of a store; the second model
  shows what the first cannot, that a run neither depends on nor disturbs the objects it
  finds. The definitions come first and follow the TypeScript sources function by
  function; the properties of the system are proved after them.
\<close>

section \<open>JavaScript numbers\<close>

text \<open>
  A JavaScript number is a finite value, one of the two infinities, or NaN. Finite values
  are modelled by reals, and overflow to an infinity is not represented. The statistics
  behind the outlier detection round the result of every operation, as double arithmetic
  does, because a rounding error there decides which indices are returned; everywhere else
  the result of an operation is the exact one, which a double matches up to its last digit.
\<close>

datatype jsnum = Fin real | PInf | NInf | NaN

text \<open>\<^verbatim>\<open>Number.isFinite(n)\<close>, and \<^verbatim>\<open>isFiniteNumber\<close> of Analytics.tsx on a number.\<close>

fun isFiniteNumber :: "jsnum \<Rightarrow> bool" where
  "isFiniteNumber (Fin r) = True"
| "isFiniteNumber n = False"

text \<open>The finite entries of an array of numbers, in order: \<^verbatim>\<open>arr.filter(Number.isFinite)\<close>.\<close>

fun finite_values :: "jsnum list \<Rightarrow> real list" where
  "finite_values [] = []"
| "finite_values (Fin r # ns) = r # finite_values ns"
| "finite_values (n # ns) = finite_values ns"


section \<open>Statistical profiler (Analytics.tsx)\<close>

text \<open>
  The basic statistics take arrays of numbers that their callers have already filtered with
  \<^verbatim>\<open>isFiniteNumber\<close>; such an array is a list of reals. An operation of double
  arithmetic yields the exact result rounded to a double. The rounding \<open>rnd\<close> is a
  parameter of these functions; \<^verbatim>\<open>**\<close> and \<^verbatim>\<open>Math.sqrt\<close> are taken to round the
  exact result as the four basic operations do.

  \<^verbatim>\<open>sum = a.reduce((s, x) => s + x, 0)\<close> and \<^verbatim>\<open>mean\<close>.
\<close>

definition sum_r :: "(real \<Rightarrow> real) \<Rightarrow> real list \<Rightarrow> real" where
  "sum_r rnd a = foldl (\<lambda>s x. rnd (s + x)) 0 a"

definition mean_r :: "(real \<Rightarrow> real) \<Rightarrow> real list \<Rightarrow> real" where
  "mean_r rnd a = (if length a \<noteq> 0 then rnd (sum_r rnd a / real (length a)) else 0)"

text \<open>\<^verbatim>\<open>variance\<close>, with the divisor \<^verbatim>\<open>a.length - 1\<close>, and \<^verbatim>\<open>stdDev\<close>.\<close>

definition variance :: "(real \<Rightarrow> real) \<Rightarrow> real list \<Rightarrow> real" where
  "variance rnd a =
     (if length a < 2 then 0
      else let m = mean_r rnd a
           in rnd (sum_r rnd (map (\<lambda>x. rnd ((rnd (x - m)) ^ 2)) a) / (real (length a) - 1)))"

definition stdDev :: "(real \<Rightarrow> real) \<Rightarrow> real list \<Rightarrow> real" where
  "stdDev rnd a = rnd (sqrt (variance rnd a))"

record zscore_result =
  count :: nat
  idx :: "nat list"

text \<open>
  \<^verbatim>\<open>zScoreOutliers(a, threshold)\<close>: the guard \<^verbatim>\<open>if (!s)\<close> fires when the computed
  standard deviation is zero; the loop pushes every index whose absolute z-score
  \<^verbatim>\<open>(a[i] - m) / s\<close> is above the threshold.
\<close>

definition zScoreOutliers :: "(real \<Rightarrow> real) \<Rightarrow> real list \<Rightarrow> real \<Rightarrow> zscore_result" where
  "zScoreOutliers rnd a threshold =
     (let m = mean_r rnd a; s = stdDev rnd a
      in if s = 0 then \<lparr>count = 0, idx = []\<rparr>
         else let ix = filter (\<lambda>i. \<bar>rnd (rnd (a ! i - m) / s)\<bar> > threshold) [0..<length a]
              in \<lparr>count = length ix, idx = ix\<rparr>)"

text \<open>
  \<^verbatim>\<open>pearson(x, y)\<close> of Analytics.tsx. The loop runs over the indices below
  \<^verbatim>\<open>n = Math.min(x.length, y.length)\<close>, which are the positions of \<open>zip x y\<close>; a pair
  with a non-finite member is skipped. The five running sums are the loop state.
\<close>

record pearson_sums =
  sx :: real
  sy :: real
  sxx :: real
  syy :: real
  sxy :: real

fun pearson_step :: "pearson_sums \<Rightarrow> jsnum \<times> jsnum \<Rightarrow> pearson_sums" where
  "pearson_step acc (Fin xi, Fin yi) =
     \<lparr>sx = sx acc + xi, sy = sy acc + yi, sxx = sxx acc + xi * xi,
      syy = syy acc + yi * yi, sxy = sxy acc + xi * yi\<rparr>"
| "pearson_step acc (xi, yi) = acc"

text \<open>
  \<^verbatim>\<open>den = Math.sqrt(...)\<close> is NaN for a negative radicand, and NaN is falsy like 0, so
  \<^verbatim>\<open>den ? num / den : 0\<close> returns 0 in both cases.
\<close>

definition pearson :: "jsnum list \<Rightarrow> jsnum list \<Rightarrow> real" where
  "pearson x y =
     (let n = min (length x) (length y)
      in if n < 2 then 0
         else let acc = foldl pearson_step \<lparr>sx = 0, sy = 0, sxx = 0, syy = 0, sxy = 0\<rparr> (zip x y);
                  num = real n * sxy acc - sx acc * sy acc;
                  rad = (real n * sxx acc - sx acc * sx acc) * (real n * syy acc - sy acc * sy acc)
              in if rad < 0 then 0
                 else let den = sqrt rad in if den \<noteq> 0 then num / den else 0)"

text \<open>
  The sibling implementation in the shared data-processing utilities (the second document
  of debug-qa.js): it first collects the index-aligned pairs whose two members are finite,
  and computes the coefficient from the deviations of those pairs only, with the sums of
  its loop and the \<^verbatim>\<open>mean\<close> of the utilities.
\<close>

definition sum_a :: "real list \<Rightarrow> real" where
  "sum_a a = foldl (\<lambda>s x. s + x) 0 a"

definition mean_a :: "real list \<Rightarrow> real" where
  "mean_a a = (if length a \<noteq> 0 then sum_a a / real (length a) else 0)"

fun finite_pairs :: "(jsnum \<times> jsnum) list \<Rightarrow> (real \<times> real) list" where
  "finite_pairs [] = []"
| "finite_pairs ((Fin a, Fin b) # ps) = (a, b) # finite_pairs ps"
| "finite_pairs (p # ps) = finite_pairs ps"

definition pearson_util :: "jsnum list \<Rightarrow> jsnum list \<Rightarrow> real" where
  "pearson_util x y =
     (let n = min (length x) (length y)
      in if n < 2 then 0
         else let ps = finite_pairs (zip x y); xs = map fst ps; ys = map snd ps
              in if length xs < 2 then 0
                 else let mx = mean_a xs; my = mean_a ys;
                          num = sum_a (map (\<lambda>(a, b). (a - mx) * (b - my)) ps);
                          dx = sum_a (map (\<lambda>a. (a - mx) ^ 2) xs);
                          dy = sum_a (map (\<lambda>b. (b - my) ^ 2) ys);
                          den = sqrt (dx * dy)
                      in if den = 0 then 0 else num / den)"


section \<open>JavaScript values and platform functions\<close>

text \<open>
  The scalar values a dataset cell can hold. A \<^verbatim>\<open>Date\<close> object is represented by its
  time value in milliseconds, \<open>None\<close> for an Invalid Date; the identity of the object is
  not represented. Strings are lists of 8-bit characters.
\<close>

datatype jsval =
    VUndefined
  | VNull
  | VBool bool
  | VNum jsnum
  | VStr string
  | VDate "int option"

text \<open>
  A JavaScript object with string keys, in insertion order: \<^verbatim>\<open>Record<string, T>\<close>.
  Reading a property that is absent yields \<^verbatim>\<open>undefined\<close>. (JavaScript enumerates
  keys that look like array indices before the others; the order of the keys decides no
  result of the functions modelled here.) The list holds the own properties of the object.
  For the rows of a dataset the properties that every object inherits from
  \<^verbatim>\<open>Object.prototype\<close> are not represented: the rows are those of a dataset in which no
  column is named \<^verbatim>\<open>__proto__\<close> and a column with the name of another such property, if
  there is one, has a cell in every row.
\<close>

type_synonym 'a obj = "(string \<times> 'a) list"

definition get_prop :: "jsval obj \<Rightarrow> string \<Rightarrow> jsval" where
  "get_prop row k = (case map_of row k of None \<Rightarrow> VUndefined | Some v \<Rightarrow> v)"

text \<open>
  The functions of the JavaScript platform that the repository calls but does not define
  (number and date parsing and printing, Unicode case mapping, regular-expression
  replacement) are parameters of the model: every theorem below holds for all of them.
\<close>

record builtins =
  numberOfString :: "string \<Rightarrow> jsnum"
  stringOfNumber :: "jsnum \<Rightarrow> string"
  stringOfDate :: "int option \<Rightarrow> string"
  isoString :: "int \<Rightarrow> string"
  localeDateString :: "int option \<Rightarrow> string"
  parseDateString :: "string \<Rightarrow> int option"
  getFullYear :: "int \<Rightarrow> int"
  getMonth :: "int \<Rightarrow> int"
  getDate :: "int \<Rightarrow> int"
  getDay :: "int \<Rightarrow> int"
  toLowerCase :: "string \<Rightarrow> string"
  toUpperCase :: "string \<Rightarrow> string"
  trimString :: "string \<Rightarrow> string"
  stripNonAlphanum :: "string \<Rightarrow> string"
  upcaseWordStarts :: "string \<Rightarrow> string"

text \<open>\<^verbatim>\<open>String(v)\<close>.\<close>

fun String_js :: "builtins \<Rightarrow> jsval \<Rightarrow> string" where
  "String_js B VUndefined = ''undefined''"
| "String_js B VNull = ''null''"
| "String_js B (VBool b) = (if b then ''true'' else ''false'')"
| "String_js B (VNum n) = stringOfNumber B n"
| "String_js B (VStr s) = s"
| "String_js B (VDate t) = stringOfDate B t"

text \<open>
  \<^verbatim>\<open>Number(s)\<close> for a string: the empty string is the number 0, any other string goes
  to the parser of the platform.
\<close>

definition Number_of_string :: "builtins \<Rightarrow> string \<Rightarrow> jsnum" where
  "Number_of_string B s = (if s = [] then Fin 0 else numberOfString B s)"

text \<open>\<^verbatim>\<open>Number(v)\<close>.\<close>

fun Number_js :: "builtins \<Rightarrow> jsval \<Rightarrow> jsnum" where
  "Number_js B VUndefined = NaN"
| "Number_js B VNull = Fin 0"
| "Number_js B (VBool b) = (if b then Fin 1 else Fin 0)"
| "Number_js B (VNum n) = n"
| "Number_js B (VStr s) = Number_of_string B s"
| "Number_js B (VDate t) = (case t of None \<Rightarrow> NaN | Some ms \<Rightarrow> Fin (real_of_int ms))"

text \<open>
  \<^verbatim>\<open>Date.parse(v)\<close> prints its argument and parses the text: a time value, or NaN
  (\<open>None\<close>).
\<close>

definition Date_parse :: "builtins \<Rightarrow> jsval \<Rightarrow> int option" where
  "Date_parse B v = parseDateString B (String_js B v)"

text \<open>
  \<^verbatim>\<open>new Date(v)\<close>, as the time value of the new object: a string is parsed, a Date is
  copied, any other value is converted to a number and clipped (\<open>None\<close> is an Invalid
  Date).
\<close>

definition time_clip :: "jsnum \<Rightarrow> int option" where
  "time_clip n =
     (case n of
        Fin r \<Rightarrow> if \<bar>r\<bar> > 8640000000000000 then None
                 else Some (if 0 \<le> r then \<lfloor>r\<rfloor> else \<lceil>r\<rceil>)
      | _ \<Rightarrow> None)"

definition new_Date :: "builtins \<Rightarrow> jsval \<Rightarrow> int option" where
  "new_Date B v =
     (case v of
        VStr s \<Rightarrow> parseDateString B s
      | VDate t \<Rightarrow> t
      | _ \<Rightarrow> time_clip (Number_js B v))"

text \<open>\<^verbatim>\<open>typeof v === "number" && !isNaN(v)\<close>.\<close>

fun is_number_not_nan :: "jsval \<Rightarrow> bool" where
  "is_number_not_nan (VNum NaN) = False"
| "is_number_not_nan (VNum n) = True"
| "is_number_not_nan v = False"


text \<open>
  The body of the loop of \<^verbatim>\<open>correlations\<close> (Analytics.tsx) for one pair of numeric
  columns: each column is converted with \<^verbatim>\<open>Number\<close> and filtered on its own, both are
  cut to the shorter length, and a pair with fewer than two values is skipped (\<open>None\<close>).
\<close>

definition correlation_entry :: "builtins \<Rightarrow> jsval obj list \<Rightarrow> string \<Rightarrow> string \<Rightarrow> real option" where
  "correlation_entry B rows x y =
     (let xs = filter isFiniteNumber (map (\<lambda>r. Number_js B (get_prop r x)) rows);
          ys = filter isFiniteNumber (map (\<lambda>r. Number_js B (get_prop r y)) rows);
          n = min (length xs) (length ys)
      in if n < 2 then None else Some (pearson (take n xs) (take n ys)))"


section \<open>Type inference\<close>

datatype column_type = Numeric | Categorical | DateType | Text

record column_info =
  name :: string
  type :: column_type
  missingCount :: nat
  uniqueCount :: nat

text \<open>
  \<^verbatim>\<open>new Set(values).size\<close>: the number of distinct values. (A \<^verbatim>\<open>Set\<close> treats NaN as
  equal to itself, as equality of the model does; it tells Date objects apart by identity,
  which the model does not represent.)
\<close>

definition set_size :: "jsval list \<Rightarrow> nat" where
  "set_size values = length (remdups values)"

subsection \<open>The server's \<^verbatim>\<open>analyzeColumns\<close> (backend/server.ts)\<close>

text \<open>The filter \<^verbatim>\<open>val !== null && val !== undefined && val !== ''\<close>.\<close>

fun present_server :: "jsval \<Rightarrow> bool" where
  "present_server VNull = False"
| "present_server VUndefined = False"
| "present_server (VStr s) = (s \<noteq> [])"
| "present_server v = True"

definition server_column_type :: "builtins \<Rightarrow> jsval list \<Rightarrow> column_type" where
  "server_column_type B values =
     (let uniqueValues = set_size values;
          numericValues = filter is_number_not_nan values;
          isNumeric = (real (length numericValues) > real (length values) * 0.8)
      in if isNumeric then Numeric
         else if real uniqueValues < real (length values) * 0.1 \<and> uniqueValues > 1
              then Categorical
         else if \<exists>val \<in> set values. Date_parse B val \<noteq> None then DateType
         else Text)"

definition analyzeColumns_server :: "builtins \<Rightarrow> jsval obj list \<Rightarrow> column_info list" where
  "analyzeColumns_server B data =
     (case data of
        [] \<Rightarrow> []
      | row0 # _ \<Rightarrow>
          map (\<lambda>columnName.
                 let values = filter present_server (map (\<lambda>row. get_prop row columnName) data)
                 in \<lparr>name = columnName,
                     type = server_column_type B values,
                     missingCount = length data - length values,
                     uniqueCount = set_size values\<rparr>)
              (map fst row0))"

subsection \<open>The shared utility's \<^verbatim>\<open>analyzeColumns\<close> (data-processing utilities)\<close>

text \<open>\<^verbatim>\<open>isMissing\<close>: null, undefined, the empty string or NaN.\<close>

fun isMissing :: "jsval \<Rightarrow> bool" where
  "isMissing VNull = True"
| "isMissing VUndefined = True"
| "isMissing (VStr s) = (s = [])"
| "isMissing (VNum NaN) = True"
| "isMissing v = False"

text \<open>\<^verbatim>\<open>toNumber\<close>: \<^verbatim>\<open>Number(v)\<close> when that is finite, NaN otherwise.\<close>

definition toNumber :: "builtins \<Rightarrow> jsval \<Rightarrow> jsnum" where
  "toNumber B v = (let n = Number_js B v in if isFiniteNumber n then n else NaN)"

text \<open>
  The quotient \<^verbatim>\<open>numericValues.length / values.length\<close> is NaN for an empty column, and
  a comparison with NaN is false. The summary statistics that the utility attaches to a
  numeric column are not part of this model.
\<close>

definition util_column_type :: "builtins \<Rightarrow> jsval list \<Rightarrow> column_type" where
  "util_column_type B values =
     (let uniqueValues = set_size values;
          numericValues = filter isFiniteNumber (map (toNumber B) values);
          isNumericCandidate =
            (values \<noteq> [] \<and> real (length numericValues) / real (length values) > 0.8)
      in if isNumericCandidate then Numeric
         else if uniqueValues \<le> 50 \<or>
                 (values \<noteq> [] \<and> real uniqueValues / real (length values) < 0.2)
              then Categorical
         else if \<exists>val \<in> set values. Date_parse B val \<noteq> None then DateType
         else Text)"

definition analyzeColumns_util :: "builtins \<Rightarrow> jsval obj list \<Rightarrow> column_info list" where
  "analyzeColumns_util B data =
     (case data of
        [] \<Rightarrow> []
      | row0 # _ \<Rightarrow>
          map (\<lambda>columnName.
                 let values = filter (\<lambda>val. \<not> isMissing val) (map (\<lambda>row. get_prop row columnName) data)
                 in \<lparr>name = columnName,
                     type = util_column_type B values,
                     missingCount = length data - length values,
                     uniqueCount = set_size values\<rparr>)
              (map fst row0))"


section \<open>Cleaning actions and the action queue (UnifiedVisualization.tsx)\<close>

datatype CleaningActionType =
    REMOVE_DUPLICATES
  | FILL_MISSING
  | CHANGE_TYPE
  | DROP_COLUMN
  | TRIM_WHITESPACE
  | LOWERCASE
  | UPPERCASE
  | REMOVE_NON_ALPHANUM
  | NUMBER_ROUND
  | NUMBER_SCALE
  | REPLACE_SUBSTRING
  | CAPITALIZE_WORDS
  | EXTRACT_DATE_PART

datatype fill_strategy = Mean | Median | Custom | Zero

datatype target_type = TypeText | TypeInteger | TypeFloat | TypeDate | TypeBoolean

datatype date_part = Year | Month | Day | Weekday

text \<open>
  The payload of an action. Every field is optional in the source; an absent field is
  \<open>None\<close> (for \<open>customValue\<close>, of type \<^verbatim>\<open>any\<close>, absent is \<^verbatim>\<open>undefined\<close>). The numeric
  fields hold finite numbers: the handlers that build round and scale actions refuse or
  replace a non-finite input.
\<close>

record payload =
  columnName :: "string option"
  strategy :: "fill_strategy option"
  customValue :: jsval
  newType :: "target_type option"
  roundTo :: "real option"
  scaleMin :: "real option"
  scaleMax :: "real option"
  find :: "string option"
  replaceWith :: "string option"
  part :: "date_part option"

text \<open>
  \<^verbatim>\<open>Omit<CleaningAction, "id">\<close> is the action as it is proposed; \<^verbatim>\<open>CleaningAction\<close> adds
  the identifier.
\<close>

record action_spec =
  action_type :: CleaningActionType
  description :: string
  payload :: payload

record CleaningAction = action_spec +
  action_id :: string

text \<open>A notification shown to the user: \<^verbatim>\<open>toast.error\<close> or \<^verbatim>\<open>toast.success\<close>.\<close>

datatype toast = ToastError string | ToastSuccess string

text \<open>Truthiness of an optional string: absent and the empty string are falsy.\<close>

fun truthy_name :: "string option \<Rightarrow> bool" where
  "truthy_name None = False"
| "truthy_name (Some s) = (s \<noteq> [])"

text \<open>The callback of \<^verbatim>\<open>actions.some\<close> in \<^verbatim>\<open>handleAddAction\<close>.\<close>

definition similar_step :: "'a action_spec_scheme \<Rightarrow> 'b action_spec_scheme \<Rightarrow> bool" where
  "similar_step action a =
     (if action_type a \<noteq> action_type action then False
      else if \<not> truthy_name (columnName (payload action))
           then action_type a = REMOVE_DUPLICATES
      else if action_type action = REPLACE_SUBSTRING
           then columnName (payload a) = columnName (payload action) \<and>
                find (payload a) = find (payload action)
      else columnName (payload a) = columnName (payload action))"

definition isRedundant :: "CleaningAction list \<Rightarrow> action_spec \<Rightarrow> bool" where
  "isRedundant actions action = list_ex (similar_step action) actions"

text \<open>
  \<^verbatim>\<open>handleAddAction\<close>: the queue is the component state \<open>actions\<close>; the function returns
  the next queue and the notification. The identifier of the new action is built from the
  clock and a random number and is a parameter here.
\<close>

definition handleAddAction ::
  "string \<Rightarrow> CleaningAction list \<Rightarrow> action_spec \<Rightarrow> CleaningAction list \<times> toast" where
  "handleAddAction new_id actions action =
     (if isRedundant actions action
      then (actions, ToastError (''A similar \"'' @ description action @ ''\" step already exists.''))
      else let newAction = action_spec.extend action (CleaningAction.fields new_id)
           in (actions @ [newAction], ToastSuccess (''Added: '' @ description newAction)))"


section \<open>The preview model and its helpers (UnifiedVisualization.tsx)\<close>

record PreviewCell =
  cell_value :: jsval
  isChanged :: bool

type_synonym PreviewRow = "PreviewCell obj"

record DatasetLike =
  columns :: "string list"
  data :: "jsval obj list"

text \<open>Assignment \<^verbatim>\<open>o[k] = v\<close>: an existing key keeps its place, a new key goes last.\<close>

fun set_prop :: "string \<Rightarrow> 'a \<Rightarrow> 'a obj \<Rightarrow> 'a obj" where
  "set_prop k v [] = [(k, v)]"
| "set_prop k v ((k', v') # r) = (if k' = k then (k, v) # r else (k', v') # set_prop k v r)"

text \<open>\<^verbatim>\<open>r[key]?.value\<close>.\<close>

definition cell_of :: "PreviewRow \<Rightarrow> string \<Rightarrow> jsval" where
  "cell_of r key = (case map_of r key of None \<Rightarrow> VUndefined | Some c \<Rightarrow> cell_value c)"

text \<open>\<^verbatim>\<open>isNullish\<close>: null, undefined or the empty string.\<close>

fun isNullish :: "jsval \<Rightarrow> bool" where
  "isNullish VNull = True"
| "isNullish VUndefined = True"
| "isNullish (VStr s) = (s = [])"
| "isNullish v = False"

text \<open>The loose test \<^verbatim>\<open>v == null\<close>: null or undefined.\<close>

fun is_null :: "jsval \<Rightarrow> bool" where
  "is_null VNull = True"
| "is_null VUndefined = True"
| "is_null v = False"

text \<open>
  Strict equality \<^verbatim>\<open>a === b\<close>. NaN is not equal to itself. Two Date values are the same
  object only if they carry the same time value; in the executor a Date is compared
  strictly only with itself (\<^verbatim>\<open>toDateOrNull\<close> returns its argument when that is a valid
  Date), so the comparison of the time values decides every comparison that occurs.
\<close>

fun strict_eq :: "jsval \<Rightarrow> jsval \<Rightarrow> bool" where
  "strict_eq VUndefined VUndefined = True"
| "strict_eq VNull VNull = True"
| "strict_eq (VBool a) (VBool b) = (a = b)"
| "strict_eq (VNum a) (VNum b) = (a \<noteq> NaN \<and> a = b)"
| "strict_eq (VStr a) (VStr b) = (a = b)"
| "strict_eq (VDate a) (VDate b) = (a = b)"
| "strict_eq a b = False"

text \<open>
  \<^verbatim>\<open>prev instanceof Date && nextVal instanceof Date && prev.getTime() === nextVal.getTime()\<close>:
  the time value of an Invalid Date is NaN.
\<close>

fun same_instant :: "jsval \<Rightarrow> jsval \<Rightarrow> bool" where
  "same_instant (VDate (Some a)) (VDate (Some b)) = (a = b)"
| "same_instant a b = False"

text \<open>\<^verbatim>\<open>setCell\<close>, the helper that writes a cell and accumulates its change flag.\<close>

definition setCell :: "PreviewRow \<Rightarrow> string \<Rightarrow> jsval \<Rightarrow> PreviewRow" where
  "setCell r key nextVal =
     (let prev = cell_of r key;
          changed = \<not> (strict_eq prev nextVal \<or> same_instant prev nextVal);
          old = (case map_of r key of None \<Rightarrow> False | Some c \<Rightarrow> isChanged c)
      in set_prop key \<lparr>cell_value = nextVal, isChanged = (old \<or> changed)\<rparr> r)"

text \<open>
  \<^verbatim>\<open>parseNumberLike\<close>: a number is returned as it is; any other value is printed, stripped
  of every character outside \<^verbatim>\<open>[0-9+\-.eE]\<close> and parsed. A text of which nothing is
  left, the empty string among them, parses as 0.
\<close>

definition parseNumberLike :: "builtins \<Rightarrow> jsval \<Rightarrow> jsnum" where
  "parseNumberLike B v =
     (case v of
        VNull \<Rightarrow> NaN
      | VUndefined \<Rightarrow> NaN
      | VNum n \<Rightarrow> n
      | _ \<Rightarrow> let cleaned = filter (\<lambda>c. c \<in> set ''0123456789+-.eE'') (String_js B v);
                 n = Number_of_string B cleaned
             in if isFiniteNumber n then n else NaN)"

text \<open>\<^verbatim>\<open>toDateOrNull\<close>: the time value of the resulting Date, \<open>None\<close> for null.\<close>

definition toDateOrNull :: "builtins \<Rightarrow> jsval \<Rightarrow> int option" where
  "toDateOrNull B v = (case v of VDate t \<Rightarrow> t | _ \<Rightarrow> new_Date B v)"

definition date_value :: "int option \<Rightarrow> jsval" where
  "date_value d = (case d of None \<Rightarrow> VNull | Some ms \<Rightarrow> VDate (Some ms))"

text \<open>
  \<^verbatim>\<open>mean\<close> and \<^verbatim>\<open>median\<close> of the cleaning workbench (named apart from the profiler's):
  over the finite entries, null (\<open>None\<close>) when there is none.
\<close>

definition mean_c :: "jsnum list \<Rightarrow> real option" where
  "mean_c arr =
     (let nums = finite_values arr
      in if nums = [] then None else Some (foldl (\<lambda>a b. a + b) 0 nums / real (length nums)))"

definition median_c :: "jsnum list \<Rightarrow> real option" where
  "median_c arr =
     (let nums = sort (finite_values arr)
      in if nums = [] then None
         else let mid = length nums div 2
              in if length nums mod 2 = 0 then Some ((nums ! (mid - 1) + nums ! mid) / 2)
                 else Some (nums ! mid))"

text \<open>The text helpers \<^verbatim>\<open>lower\<close>, \<^verbatim>\<open>upper\<close>, \<^verbatim>\<open>trim\<close>, \<^verbatim>\<open>removeNonAlphanum\<close>, \<^verbatim>\<open>capitalizeWords\<close>.\<close>

definition text_op :: "(string \<Rightarrow> string) \<Rightarrow> builtins \<Rightarrow> jsval \<Rightarrow> jsval" where
  "text_op f B v = (if is_null v then v else VStr (f (String_js B v)))"

definition lower :: "builtins \<Rightarrow> jsval \<Rightarrow> jsval" where
  "lower B = text_op (toLowerCase B) B"

definition upper :: "builtins \<Rightarrow> jsval \<Rightarrow> jsval" where
  "upper B = text_op (toUpperCase B) B"

definition trim :: "builtins \<Rightarrow> jsval \<Rightarrow> jsval" where
  "trim B = text_op (trimString B) B"

definition removeNonAlphanum :: "builtins \<Rightarrow> jsval \<Rightarrow> jsval" where
  "removeNonAlphanum B = text_op (stripNonAlphanum B) B"

definition capitalizeWords :: "builtins \<Rightarrow> jsval \<Rightarrow> jsval" where
  "capitalizeWords B = text_op (upcaseWordStarts B) B"

text \<open>
  \<^verbatim>\<open>String.prototype.replaceAll\<close> with a string pattern. The replacement text is
  expanded at each match: \<^verbatim>\<open>$$\<close> is a dollar sign, \<^verbatim>\<open>$&\<close> the match, \<^verbatim>\<open>$`\<close> the
  text before the match and \<^verbatim>\<open>$'\<close> the text after it; any other text is literal.
\<close>

fun get_substitution :: "string \<Rightarrow> string \<Rightarrow> string \<Rightarrow> string \<Rightarrow> string" where
  "get_substitution matched preceding following [] = []"
| "get_substitution matched preceding following [c] = [c]"
| "get_substitution matched preceding following (c # d # r) =
     (if c = CHR ''$'' \<and> d = CHR ''$'' then CHR ''$'' # get_substitution matched preceding following r
      else if c = CHR ''$'' \<and> d = CHR ''&'' then matched @ get_substitution matched preceding following r
      else if c = CHR ''$'' \<and> d = CHR 0x60 then preceding @ get_substitution matched preceding following r
      else if c = CHR ''$'' \<and> d = CHR 0x27 then following @ get_substitution matched preceding following r
      else c # get_substitution matched preceding following (d # r))"

text \<open>
  The scan for the non-overlapping matches, left to right; \<open>preceding\<close> is the part of the
  subject already passed. The pattern is not empty here (the action returns early when it
  is).
\<close>

function replace_from :: "string \<Rightarrow> string \<Rightarrow> string \<Rightarrow> string \<Rightarrow> string" where
  "replace_from pat rep preceding [] = []"
| "replace_from pat rep preceding (c # cs) =
     (if pat \<noteq> [] \<and> prefix pat (c # cs)
      then get_substitution pat preceding (drop (length pat) (c # cs)) rep
           @ replace_from pat rep (preceding @ pat) (drop (length pat) (c # cs))
      else c # replace_from pat rep (preceding @ [c]) cs)"
  by pat_completeness auto
termination
  by (relation "measure (\<lambda>(pat, rep, preceding, s). length s)") (auto simp: neq_Nil_conv)

definition replaceAll :: "string \<Rightarrow> string \<Rightarrow> string \<Rightarrow> string" where
  "replaceAll s pat rep = replace_from pat rep [] s"

text \<open>
  \<^verbatim>\<open>stableKey\<close>: the JSON text of the row with its keys sorted and its Dates printed by
  \<^verbatim>\<open>toISOString\<close>. JSON leaves out a property whose value is undefined and prints a
  non-finite number as null. Printing is injective on what remains, so the key is
  represented by the sorted list of printed entries. \<^verbatim>\<open>toISOString\<close> throws a RangeError
  on an Invalid Date: the key is then \<open>None\<close>.
\<close>

datatype json = JNull | JBool bool | JNum real | JStr string

fun json_of :: "builtins \<Rightarrow> jsval \<Rightarrow> json option" where
  "json_of B VUndefined = None"
| "json_of B VNull = Some JNull"
| "json_of B (VBool b) = Some (JBool b)"
| "json_of B (VNum (Fin r)) = Some (JNum r)"
| "json_of B (VNum n) = Some JNull"
| "json_of B (VStr s) = Some (JStr s)"
| "json_of B (VDate None) = None"
| "json_of B (VDate (Some ms)) = Some (JStr (isoString B ms))"

definition json_entries :: "builtins \<Rightarrow> jsval obj \<Rightarrow> (string \<times> json) list" where
  "json_entries B row =
     concat (map (\<lambda>(k, v). case json_of B v of None \<Rightarrow> [] | Some j \<Rightarrow> [(k, j)]) row)"

definition stableKey :: "builtins \<Rightarrow> jsval obj \<Rightarrow> (string \<times> json) list option" where
  "stableKey B row =
     (if list_ex (\<lambda>(k, v). v = VDate None) row then None
      else Some (sort_key fst (json_entries B row)))"


section \<open>The pipeline executor (the \<^verbatim>\<open>preview\<close> computation)\<close>

text \<open>
  The state of the loop over the actions: the rows processed so far and the own properties
  of the object \<^verbatim>\<open>numericCache\<close>, the parsed columns that \<^verbatim>\<open>ensureNumericCache\<close> has
  stored.
\<close>

record exec_state =
  numericCache :: "string \<Rightarrow> jsnum list option"
  processed :: "PreviewRow list"

text \<open>
  \<^verbatim>\<open>action.payload.columnName!\<close>: the assertion does nothing at run time, and an absent
  name used as a property key is the key \<^verbatim>\<open>"undefined"\<close>. The same holds for the texts of
  a substring replacement.
\<close>

definition key_of :: "string option \<Rightarrow> string" where
  "key_of c = (case c of None \<Rightarrow> ''undefined'' | Some k \<Rightarrow> k)"

definition column_numbers :: "builtins \<Rightarrow> PreviewRow list \<Rightarrow> string \<Rightarrow> jsnum list" where
  "column_numbers B rows col = map (\<lambda>r. parseNumberLike B (cell_of r col)) rows"

text \<open>
  The cache is a plain object, created by \<^verbatim>\<open>{}\<close>: the lookup \<^verbatim>\<open>numericCache[col]\<close> of
  a name that is no own property goes on to \<^verbatim>\<open>Object.prototype\<close>, whose properties have
  the names below. Each of them holds a function (\<^verbatim>\<open>__proto__\<close> yields the prototype
  object itself), which is truthy, so that \<^verbatim>\<open>ensureNumericCache\<close> returns it in place
  of an array of numbers.
\<close>

definition Object_prototype_keys :: "string list" where
  "Object_prototype_keys =
     [''constructor'', ''__defineGetter__'', ''__defineSetter__'', ''hasOwnProperty'',
      ''__lookupGetter__'', ''__lookupSetter__'', ''isPrototypeOf'', ''propertyIsEnumerable'',
      ''toString'', ''valueOf'', ''__proto__'', ''toLocaleString'']"

datatype cached = Numbers "jsnum list" | Inherited

definition ensureNumericCache :: "builtins \<Rightarrow> exec_state \<Rightarrow> string \<Rightarrow> cached \<times> exec_state" where
  "ensureNumericCache B st col =
     (case numericCache st col of
        Some arr \<Rightarrow> (Numbers arr, st)
      | None \<Rightarrow>
          if col \<in> set Object_prototype_keys then (Inherited, st)
          else let arr = column_numbers B (processed st) col
               in (Numbers arr, st\<lparr>numericCache := (numericCache st)(col \<mapsto> arr)\<rparr>))"

text \<open>\<^verbatim>\<open>REMOVE_DUPLICATES\<close>: the filter with the set \<open>seen\<close> of keys met so far.\<close>

definition row_values :: "PreviewRow \<Rightarrow> jsval obj" where
  "row_values row = map (\<lambda>(k, c). (k, cell_value c)) row"

fun remove_duplicates ::
  "builtins \<Rightarrow> (string \<times> json) list list \<Rightarrow> PreviewRow list \<Rightarrow> PreviewRow list option" where
  "remove_duplicates B seen [] = Some []"
| "remove_duplicates B seen (row # rows) =
     (case stableKey B (row_values row) of
        None \<Rightarrow> None
      | Some key \<Rightarrow>
          if key \<in> set seen then remove_duplicates B seen rows
          else map_option (\<lambda>rest. row # rest) (remove_duplicates B (key # seen) rows))"

text \<open>
  \<^verbatim>\<open>FILL_MISSING\<close>: the replacement is computed once, then written into the nullish cells.
  \<^verbatim>\<open>mean\<close> and \<^verbatim>\<open>median\<close> begin with \<^verbatim>\<open>arr.filter\<close>, which throws a TypeError when
  \<^verbatim>\<open>arr\<close> is an inherited property of the cache and no array: the result is then
  \<open>None\<close>.
\<close>

definition fill_replacement ::
  "builtins \<Rightarrow> exec_state \<Rightarrow> string \<Rightarrow> payload \<Rightarrow> (jsval \<times> exec_state) option" where
  "fill_replacement B st col p =
     (case (case strategy p of None \<Rightarrow> Zero | Some s \<Rightarrow> s) of
        Custom \<Rightarrow> Some (customValue p, st)
      | Zero \<Rightarrow> Some (VNum (Fin 0), st)
      | Mean \<Rightarrow>
          (case ensureNumericCache B st col of
             (Inherited, st') \<Rightarrow> None
           | (Numbers nums, st') \<Rightarrow>
               Some (case mean_c nums of None \<Rightarrow> VNum (Fin 0) | Some m \<Rightarrow> VNum (Fin m), st'))
      | Median \<Rightarrow>
          (case ensureNumericCache B st col of
             (Inherited, st') \<Rightarrow> None
           | (Numbers nums, st') \<Rightarrow>
               Some (case median_c nums of None \<Rightarrow> VNum (Fin 0) | Some m \<Rightarrow> VNum (Fin m), st')))"

definition fill_row :: "string \<Rightarrow> jsval \<Rightarrow> PreviewRow \<Rightarrow> PreviewRow" where
  "fill_row col replacement row =
     (case map_of row col of
        None \<Rightarrow> row
      | Some cell \<Rightarrow> if \<not> isNullish (cell_value cell) then row else setCell row col replacement)"

text \<open>\<^verbatim>\<open>CHANGE_TYPE\<close>. \<^verbatim>\<open>Math.trunc\<close> rounds towards zero.\<close>

definition trunc_js :: "real \<Rightarrow> real" where
  "trunc_js r = (if 0 \<le> r then of_int \<lfloor>r\<rfloor> else of_int \<lceil>r\<rceil>)"

definition convert_value :: "builtins \<Rightarrow> target_type option \<Rightarrow> jsval \<Rightarrow> jsval" where
  "convert_value B t v =
     (case t of
        Some TypeInteger \<Rightarrow>
          (case parseNumberLike B v of Fin n \<Rightarrow> VNum (Fin (trunc_js n)) | _ \<Rightarrow> VNull)
      | Some TypeFloat \<Rightarrow>
          (case parseNumberLike B v of Fin n \<Rightarrow> VNum (Fin n) | _ \<Rightarrow> VNull)
      | Some TypeText \<Rightarrow> (if is_null v then VStr [] else VStr (String_js B v))
      | Some TypeBoolean \<Rightarrow>
          VBool (toLowerCase B (String_js B v) \<in> set [''true'', ''1'', ''yes'', ''y''])
      | Some TypeDate \<Rightarrow> date_value (toDateOrNull B v)
      | None \<Rightarrow> v)"

definition change_type_row :: "builtins \<Rightarrow> string \<Rightarrow> target_type option \<Rightarrow> PreviewRow \<Rightarrow> PreviewRow" where
  "change_type_row B col t row =
     (case map_of row col of
        None \<Rightarrow> row
      | Some cell \<Rightarrow> setCell row col (convert_value B t (cell_value cell)))"

text \<open>\<^verbatim>\<open>DROP_COLUMN\<close>: the cell is overwritten by the undefined marker, flagged as changed.\<close>

definition drop_row :: "string \<Rightarrow> PreviewRow \<Rightarrow> PreviewRow" where
  "drop_row col row =
     (case map_of row col of
        None \<Rightarrow> row
      | Some cell \<Rightarrow> set_prop col \<lparr>cell_value = VUndefined, isChanged = True\<rparr> row)"

text \<open>The five text transforms share one shape, with the helper as the only difference.\<close>

definition text_row :: "(jsval \<Rightarrow> jsval) \<Rightarrow> string \<Rightarrow> PreviewRow \<Rightarrow> PreviewRow" where
  "text_row f col row =
     (let v = cell_of row col
      in if is_null v then row
         else let nv = f v in if strict_eq nv v then row else setCell row col nv)"

text \<open>\<^verbatim>\<open>REPLACE_SUBSTRING\<close>.\<close>

definition replace_row :: "builtins \<Rightarrow> string \<Rightarrow> string option \<Rightarrow> string option \<Rightarrow> PreviewRow \<Rightarrow> PreviewRow" where
  "replace_row B col fnd rep row =
     (let v = cell_of row col
      in if is_null v \<or> fnd = Some [] then row
         else let nv = VStr (replaceAll (String_js B v) (key_of fnd) (key_of rep))
              in if strict_eq nv v then row else setCell row col nv)"

text \<open>
  \<^verbatim>\<open>EXTRACT_DATE_PART\<close>. Reading the array of weekday names at an index outside 0..6
  yields undefined.
\<close>

definition weekdays :: "string list" where
  "weekdays = [''Sunday'', ''Monday'', ''Tuesday'', ''Wednesday'', ''Thursday'', ''Friday'', ''Saturday'']"

definition extract_part :: "builtins \<Rightarrow> date_part option \<Rightarrow> int \<Rightarrow> jsval" where
  "extract_part B pt ms =
     (case pt of
        None \<Rightarrow> VNull
      | Some Year \<Rightarrow> VNum (Fin (real_of_int (getFullYear B ms)))
      | Some Month \<Rightarrow> VNum (Fin (real_of_int (getMonth B ms + 1)))
      | Some Day \<Rightarrow> VNum (Fin (real_of_int (getDate B ms)))
      | Some Weekday \<Rightarrow>
          (let d = getDay B ms
           in if 0 \<le> d \<and> d < 7 then VStr (weekdays ! nat d) else VUndefined))"

definition extract_row :: "builtins \<Rightarrow> string \<Rightarrow> date_part option \<Rightarrow> PreviewRow \<Rightarrow> PreviewRow" where
  "extract_row B col pt row =
     (case toDateOrNull B (cell_of row col) of
        None \<Rightarrow> row
      | Some ms \<Rightarrow>
          (let nv = extract_part B pt ms
           in if nv = VNull then row else setCell row col nv))"

text \<open>\<^verbatim>\<open>NUMBER_ROUND\<close>. \<^verbatim>\<open>Math.round\<close> rounds to the nearest integer, a half upwards.\<close>

definition round_js :: "real \<Rightarrow> real" where
  "round_js x = of_int \<lfloor>x + 1 / 2\<rfloor>"

definition round_row :: "builtins \<Rightarrow> string \<Rightarrow> real \<Rightarrow> PreviewRow \<Rightarrow> PreviewRow" where
  "round_row B col factor row =
     (case parseNumberLike B (cell_of row col) of
        Fin v \<Rightarrow> setCell row col (VNum (Fin (round_js (v * factor) / factor)))
      | _ \<Rightarrow> row)"

text \<open>\<^verbatim>\<open>NUMBER_SCALE\<close>. \<^verbatim>\<open>Math.min(...finite)\<close> and \<^verbatim>\<open>Math.max(...finite)\<close> of a non-empty array.\<close>

definition min_list_js :: "real list \<Rightarrow> real" where
  "min_list_js xs = foldl min (hd xs) (tl xs)"

definition max_list_js :: "real list \<Rightarrow> real" where
  "max_list_js xs = foldl max (hd xs) (tl xs)"

definition scale_row :: "builtins \<Rightarrow> string \<Rightarrow> real \<Rightarrow> real \<Rightarrow> real \<Rightarrow> real \<Rightarrow> PreviewRow \<Rightarrow> PreviewRow" where
  "scale_row B col mn mx outMin outMax row =
     (case parseNumberLike B (cell_of row col) of
        Fin v \<Rightarrow>
          (let t = (if mx = mn then 0 else (v - mn) / (mx - mn));
               nv = outMin + t * (outMax - outMin)
           in setCell row col (VNum (Fin nv)))
      | _ \<Rightarrow> row)"

definition number_scale :: "builtins \<Rightarrow> payload \<Rightarrow> PreviewRow list \<Rightarrow> PreviewRow list" where
  "number_scale B p rows =
     (let col = key_of (columnName p);
          nums = column_numbers B rows col;
          finite = finite_values nums
      in if finite = [] then rows
         else let mn = min_list_js finite;
                  mx = max_list_js finite;
                  outMin = (case scaleMin p of None \<Rightarrow> 0 | Some m \<Rightarrow> m);
                  outMax = (case scaleMax p of None \<Rightarrow> 1 | Some m \<Rightarrow> m)
              in map (scale_row B col mn mx outMin outMax) rows)"

text \<open>
  One iteration of the loop: the \<^verbatim>\<open>switch\<close> on the type of the action. \<open>None\<close> is
  an exception, thrown by \<^verbatim>\<open>stableKey\<close> or by \<^verbatim>\<open>mean\<close> and \<^verbatim>\<open>median\<close>.
\<close>

definition apply_action :: "builtins \<Rightarrow> exec_state \<Rightarrow> 'a action_spec_scheme \<Rightarrow> exec_state option" where
  "apply_action B st action =
     (let p = payload action; col = key_of (columnName p); rows = processed st
      in case action_type action of
           REMOVE_DUPLICATES \<Rightarrow>
             map_option (\<lambda>rows'. st\<lparr>processed := rows'\<rparr>) (remove_duplicates B [] rows)
         | FILL_MISSING \<Rightarrow>
             (case fill_replacement B st col p of
                None \<Rightarrow> None
              | Some (replacement, st') \<Rightarrow>
                  Some (st'\<lparr>processed := map (fill_row col replacement) rows\<rparr>))
         | CHANGE_TYPE \<Rightarrow> Some (st\<lparr>processed := map (change_type_row B col (newType p)) rows\<rparr>)
         | DROP_COLUMN \<Rightarrow> Some (st\<lparr>processed := map (drop_row col) rows\<rparr>)
         | TRIM_WHITESPACE \<Rightarrow> Some (st\<lparr>processed := map (text_row (trim B) col) rows\<rparr>)
         | LOWERCASE \<Rightarrow> Some (st\<lparr>processed := map (text_row (lower B) col) rows\<rparr>)
         | UPPERCASE \<Rightarrow> Some (st\<lparr>processed := map (text_row (upper B) col) rows\<rparr>)
         | REMOVE_NON_ALPHANUM \<Rightarrow>
             Some (st\<lparr>processed := map (text_row (removeNonAlphanum B) col) rows\<rparr>)
         | CAPITALIZE_WORDS \<Rightarrow>
             Some (st\<lparr>processed := map (text_row (capitalizeWords B) col) rows\<rparr>)
         | REPLACE_SUBSTRING \<Rightarrow>
             Some (st\<lparr>processed := map (replace_row B col (find p) (replaceWith p)) rows\<rparr>)
         | EXTRACT_DATE_PART \<Rightarrow> Some (st\<lparr>processed := map (extract_row B col (part p)) rows\<rparr>)
         | NUMBER_ROUND \<Rightarrow>
             (let places = (case roundTo p of None \<Rightarrow> 0 | Some n \<Rightarrow> n);
                  factor = 10 powr places
              in Some (st\<lparr>processed := map (round_row B col factor) rows\<rparr>))
         | NUMBER_SCALE \<Rightarrow> Some (st\<lparr>processed := number_scale B p rows\<rparr>))"

text \<open>The loop \<^verbatim>\<open>for (const action of actions)\<close>; an exception ends it.\<close>

fun run_actions :: "builtins \<Rightarrow> exec_state \<Rightarrow> 'a action_spec_scheme list \<Rightarrow> exec_state option" where
  "run_actions B st [] = Some st"
| "run_actions B st (action # rest) =
     (case apply_action B st action of
        None \<Rightarrow> None
      | Some st' \<Rightarrow> run_actions B st' rest)"

text \<open>The rows of the original dataset wrapped as preview rows, nothing changed yet.\<close>

definition initial_rows :: "DatasetLike \<Rightarrow> PreviewRow list" where
  "initial_rows D = map (map (\<lambda>(key, v). (key, \<lparr>cell_value = v, isChanged = False\<rparr>))) (data D)"

definition initial_state :: "DatasetLike \<Rightarrow> exec_state" where
  "initial_state D = \<lparr>numericCache = Map.empty, processed = initial_rows D\<rparr>"

text \<open>Flattening a preview row: the cells that carry the undefined marker are left out.\<close>

definition flatten_row :: "PreviewRow \<Rightarrow> jsval obj" where
  "flatten_row row = map (\<lambda>(k, c). (k, cell_value c)) (filter (\<lambda>(k, c). cell_value c \<noteq> VUndefined) row)"

record preview_stats =
  missing :: nat
  dups :: nat

record preview_result =
  preview_data :: "PreviewRow list"
  stats :: preview_stats

fun all_keys :: "builtins \<Rightarrow> jsval obj list \<Rightarrow> (string \<times> json) list list option" where
  "all_keys B [] = Some []"
| "all_keys B (r # rs) =
     (case stableKey B r of
        None \<Rightarrow> None
      | Some k \<Rightarrow> map_option (\<lambda>ks. k # ks) (all_keys B rs))"

text \<open>
  The whole \<^verbatim>\<open>preview\<close> computation for a loaded dataset: the loop, then the statistics
  over the flattened rows. \<open>None\<close> is an exception thrown on the way.
\<close>

definition preview :: "builtins \<Rightarrow> DatasetLike \<Rightarrow> 'a action_spec_scheme list \<Rightarrow> preview_result option" where
  "preview B D actions =
     (case run_actions B (initial_state D) actions of
        None \<Rightarrow> None
      | Some st \<Rightarrow>
          (let flattened = map flatten_row (processed st);
               miss = foldl (\<lambda>sum row. sum + length (filter isNullish (map snd row))) 0 flattened
           in case all_keys B flattened of
                None \<Rightarrow> None
              | Some keys \<Rightarrow>
                  Some \<lparr>preview_data = processed st,
                        stats = \<lparr>missing = miss,
                                 dups = length flattened - length (remdups keys)\<rparr>\<rparr>))"


section \<open>Export (\<^verbatim>\<open>objectsToCSV\<close>, \<^verbatim>\<open>exportCSV\<close>)\<close>

fun join :: "string \<Rightarrow> string list \<Rightarrow> string" where
  "join sep [] = []"
| "join sep [x] = x"
| "join sep (x # y # r) = x @ sep @ join sep (y # r)"

text \<open>The local function \<^verbatim>\<open>escape\<close>: quoting when the text holds a quote, a comma or a newline.\<close>

definition escape :: "builtins \<Rightarrow> jsval \<Rightarrow> string" where
  "escape B v =
     (if is_null v then []
      else let s = (case v of VDate t \<Rightarrow> localeDateString B t | _ \<Rightarrow> String_js B v);
               needs = list_ex (\<lambda>c. c \<in> set [CHR 0x22, CHR '','', CHR 0x0A]) s
           in if needs
              then [CHR 0x22] @ concat (map (\<lambda>c. if c = CHR 0x22 then [c, c] else [c]) s) @ [CHR 0x22]
              else s)"

definition csv_header :: "builtins \<Rightarrow> string list \<Rightarrow> string" where
  "csv_header B cols = join '','' (map (\<lambda>c. escape B (VStr c)) cols)"

definition objectsToCSV :: "builtins \<Rightarrow> jsval obj list \<Rightarrow> string list \<Rightarrow> string" where
  "objectsToCSV B rows cols =
     (let header = csv_header B cols;
          lines = map (\<lambda>r. join '','' (map (\<lambda>c. escape B (get_prop r c)) cols)) rows
      in join [CHR 0x0A] (header # lines))"

text \<open>
  The columns of the export: the original columns, in order, without those named by a
  drop action of the queue (a drop action with a falsy column name is not counted).
\<close>

definition droppedColumns :: "'a action_spec_scheme list \<Rightarrow> string list" where
  "droppedColumns actions =
     map (\<lambda>a. key_of (columnName (payload a)))
       (filter (\<lambda>a. action_type a = DROP_COLUMN \<and> truthy_name (columnName (payload a))) actions)"

definition finalColumns :: "DatasetLike \<Rightarrow> 'a action_spec_scheme list \<Rightarrow> string list" where
  "finalColumns D actions = filter (\<lambda>c. c \<notin> set (droppedColumns actions)) (columns D)"

text \<open>\<^verbatim>\<open>exportCSV\<close>: the text handed to the download.\<close>

definition exportCSV :: "builtins \<Rightarrow> DatasetLike \<Rightarrow> 'a action_spec_scheme list \<Rightarrow> string option" where
  "exportCSV B D actions =
     (case preview B D actions of
        None \<Rightarrow> None
      | Some pv \<Rightarrow>
          Some (objectsToCSV B (map flatten_row (preview_data pv)) (finalColumns D actions)))"


text \<open>The payload \<^verbatim>\<open>{}\<close>, and an action as the handlers of the component propose it.\<close>

definition empty_payload :: payload where
  "empty_payload =
     \<lparr>columnName = None, strategy = None, customValue = VUndefined, newType = None,
      roundTo = None, scaleMin = None, scaleMax = None, find = None, replaceWith = None,
      part = None\<rparr>"

definition step :: "CleaningActionType \<Rightarrow> payload \<Rightarrow> action_spec" where
  "step t p = \<lparr>action_type = t, description = [], payload = p\<rparr>"


section \<open>The executor on a store of objects\<close>

text \<open>
  The rows that the executor handles are JavaScript objects. It reads the row objects of
  the dataset, creates a preview row for each of them, copies a preview row with
  \<^verbatim>\<open>{ ...row }\<close> before it writes a cell of the copy, and hands a row that it does not
  change on by reference. In this second model of the executor the objects live in a
  store, a row is a reference into the store, and allocation and assignment are explicit.
  A cell \<^verbatim>\<open>{ value, isChanged }\<close> is never written after its creation (\<^verbatim>\<open>setCell\<close> and
  the drop of a column assign a new cell to the key), so a row object holds its cells by
  value. A reference is the position at which its object was allocated.
\<close>

type_synonym ref = nat

datatype stored = DataRow "jsval obj" | PreviewRowObject PreviewRow

record store =
  objects :: "ref \<Rightarrow> stored option"
  next_ref :: ref

text \<open>The creation of an object, and the assignment to a property of the object behind \<open>r\<close>.\<close>

definition allocate :: "stored \<Rightarrow> store \<Rightarrow> ref \<times> store" where
  "allocate obj S =
     (next_ref S, \<lparr>objects = (objects S)(next_ref S \<mapsto> obj), next_ref = Suc (next_ref S)\<rparr>)"

definition assign :: "ref \<Rightarrow> stored \<Rightarrow> store \<Rightarrow> store" where
  "assign r obj S = S\<lparr>objects := (objects S)(r \<mapsto> obj)\<rparr>"

text \<open>Reading a row of the dataset and a preview row through a reference.\<close>

definition data_row :: "store \<Rightarrow> ref \<Rightarrow> jsval obj" where
  "data_row S r = (case objects S r of Some (DataRow row) \<Rightarrow> row | _ \<Rightarrow> [])"

definition preview_row :: "store \<Rightarrow> ref \<Rightarrow> PreviewRow" where
  "preview_row S r = (case objects S r of Some (PreviewRowObject row) \<Rightarrow> row | _ \<Rightarrow> [])"

text \<open>
  \<^verbatim>\<open>const copy = { ...row }\<close>, and \<^verbatim>\<open>setCell(copy, col, nv)\<close>, which assigns to the object
  it is given; the two followed by \<^verbatim>\<open>return copy\<close> end every callback that changes a cell.
\<close>

definition copy_row :: "ref \<Rightarrow> store \<Rightarrow> ref \<times> store" where
  "copy_row r S = allocate (PreviewRowObject (preview_row S r)) S"

definition store_setCell :: "ref \<Rightarrow> string \<Rightarrow> jsval \<Rightarrow> store \<Rightarrow> store" where
  "store_setCell r key nextVal S = assign r (PreviewRowObject (setCell (preview_row S r) key nextVal)) S"

definition copy_and_set :: "string \<Rightarrow> jsval \<Rightarrow> ref \<Rightarrow> store \<Rightarrow> ref \<times> store" where
  "copy_and_set col nv r S = (let (copy, S1) = copy_row r S in (copy, store_setCell copy col nv S1))"

text \<open>
  \<^verbatim>\<open>processed.map(callback)\<close>: the callback runs on the rows in order, each on the store
  that the previous ones have left, and the new array holds the references they return.
\<close>

fun map_refs :: "(ref \<Rightarrow> store \<Rightarrow> ref \<times> store) \<Rightarrow> ref list \<Rightarrow> store \<Rightarrow> ref list \<times> store" where
  "map_refs f [] S = ([], S)"
| "map_refs f (r # rs) S =
     (let (r', S1) = f r S; (rs', S2) = map_refs f rs S1 in (r' # rs', S2))"

text \<open>
  The callbacks of the cases of the \<^verbatim>\<open>switch\<close> that go through \<^verbatim>\<open>setCell\<close> have one
  shape: they read the row and either return it (\<open>None\<close>) or find the next value of the
  cell, which goes into a copy. The functions below are the part that reads the row, case
  by case: \<^verbatim>\<open>FILL_MISSING\<close>, \<^verbatim>\<open>CHANGE_TYPE\<close>, the five text transforms,
  \<^verbatim>\<open>REPLACE_SUBSTRING\<close>, \<^verbatim>\<open>EXTRACT_DATE_PART\<close>, \<^verbatim>\<open>NUMBER_ROUND\<close> and
  \<^verbatim>\<open>NUMBER_SCALE\<close>.
\<close>

definition fill_value :: "string \<Rightarrow> jsval \<Rightarrow> PreviewRow \<Rightarrow> jsval option" where
  "fill_value col replacement row =
     (case map_of row col of
        None \<Rightarrow> None
      | Some cell \<Rightarrow> if \<not> isNullish (cell_value cell) then None else Some replacement)"

definition change_type_value :: "builtins \<Rightarrow> string \<Rightarrow> target_type option \<Rightarrow> PreviewRow \<Rightarrow> jsval option" where
  "change_type_value B col t row =
     (case map_of row col of
        None \<Rightarrow> None
      | Some cell \<Rightarrow> Some (convert_value B t (cell_value cell)))"

definition text_value :: "(jsval \<Rightarrow> jsval) \<Rightarrow> string \<Rightarrow> PreviewRow \<Rightarrow> jsval option" where
  "text_value f col row =
     (let v = cell_of row col
      in if is_null v then None
         else let nv = f v in if strict_eq nv v then None else Some nv)"

definition replace_value :: "builtins \<Rightarrow> string \<Rightarrow> string option \<Rightarrow> string option \<Rightarrow> PreviewRow \<Rightarrow> jsval option" where
  "replace_value B col fnd rep row =
     (let v = cell_of row col
      in if is_null v \<or> fnd = Some [] then None
         else let nv = VStr (replaceAll (String_js B v) (key_of fnd) (key_of rep))
              in if strict_eq nv v then None else Some nv)"

definition extract_value :: "builtins \<Rightarrow> string \<Rightarrow> date_part option \<Rightarrow> PreviewRow \<Rightarrow> jsval option" where
  "extract_value B col pt row =
     (case toDateOrNull B (cell_of row col) of
        None \<Rightarrow> None
      | Some ms \<Rightarrow> (let nv = extract_part B pt ms in if nv = VNull then None else Some nv))"

definition round_value :: "builtins \<Rightarrow> string \<Rightarrow> real \<Rightarrow> PreviewRow \<Rightarrow> jsval option" where
  "round_value B col factor row =
     (case parseNumberLike B (cell_of row col) of
        Fin v \<Rightarrow> Some (VNum (Fin (round_js (v * factor) / factor)))
      | _ \<Rightarrow> None)"

definition scale_value :: "builtins \<Rightarrow> string \<Rightarrow> real \<Rightarrow> real \<Rightarrow> real \<Rightarrow> real \<Rightarrow> PreviewRow \<Rightarrow> jsval option" where
  "scale_value B col mn mx outMin outMax row =
     (case parseNumberLike B (cell_of row col) of
        Fin v \<Rightarrow>
          (let t = (if mx = mn then 0 else (v - mn) / (mx - mn))
           in Some (VNum (Fin (outMin + t * (outMax - outMin)))))
      | _ \<Rightarrow> None)"

text \<open>The callback as a whole: the row itself, or a copy with the new value set.\<close>

definition rewrite_row :: "(PreviewRow \<Rightarrow> jsval option) \<Rightarrow> string \<Rightarrow> ref \<Rightarrow> store \<Rightarrow> ref \<times> store" where
  "rewrite_row next_value col r S =
     (case next_value (preview_row S r) of
        None \<Rightarrow> (r, S)
      | Some nv \<Rightarrow> copy_and_set col nv r S)"

text \<open>The callback of \<^verbatim>\<open>DROP_COLUMN\<close> copies every row and marks the cell in the copy.\<close>

definition store_drop_row :: "string \<Rightarrow> ref \<Rightarrow> store \<Rightarrow> ref \<times> store" where
  "store_drop_row col r S =
     (let (copy, S1) = copy_row r S
      in if map_of (preview_row S1 copy) col \<noteq> None
         then (copy, assign copy
                 (PreviewRowObject
                    (set_prop col \<lparr>cell_value = VUndefined, isChanged = True\<rparr> (preview_row S1 copy))) S1)
         else (copy, S1))"

text \<open>The filter of \<^verbatim>\<open>REMOVE_DUPLICATES\<close> keeps references and creates no row.\<close>

fun store_remove_duplicates ::
  "builtins \<Rightarrow> store \<Rightarrow> (string \<times> json) list list \<Rightarrow> ref list \<Rightarrow> ref list option" where
  "store_remove_duplicates B S seen [] = Some []"
| "store_remove_duplicates B S seen (r # rs) =
     (case stableKey B (row_values (preview_row S r)) of
        None \<Rightarrow> None
      | Some key \<Rightarrow>
          if key \<in> set seen then store_remove_duplicates B S seen rs
          else map_option (\<lambda>rest. r # rest) (store_remove_duplicates B S (key # seen) rs))"

text \<open>
  The state of the loop: the cache and the array \<open>processed\<close> of references. The
  function \<open>rows_of\<close> reads the rows behind the references.
\<close>

record store_state =
  cache :: "string \<Rightarrow> jsnum list option"
  row_refs :: "ref list"

definition rows_of :: "store \<Rightarrow> store_state \<Rightarrow> exec_state" where
  "rows_of S hst = \<lparr>numericCache = cache hst, processed = map (preview_row S) (row_refs hst)\<rparr>"

text \<open>One iteration of the loop, on the store.\<close>

definition store_apply_action ::
  "builtins \<Rightarrow> store \<Rightarrow> store_state \<Rightarrow> 'a action_spec_scheme \<Rightarrow> (store \<times> store_state) option" where
  "store_apply_action B S hst action =
     (let p = payload action; col = key_of (columnName p); refs = row_refs hst;
          rewrite = (\<lambda>next_value.
             let (refs', S') = map_refs (rewrite_row next_value col) refs S
             in Some (S', hst\<lparr>row_refs := refs'\<rparr>))
      in case action_type action of
           REMOVE_DUPLICATES \<Rightarrow>
             map_option (\<lambda>refs'. (S, hst\<lparr>row_refs := refs'\<rparr>)) (store_remove_duplicates B S [] refs)
         | FILL_MISSING \<Rightarrow>
             (case fill_replacement B (rows_of S hst) col p of
                None \<Rightarrow> None
              | Some (replacement, st') \<Rightarrow>
                  (let (refs', S') = map_refs (rewrite_row (fill_value col replacement) col) refs S
                   in Some (S', \<lparr>cache = numericCache st', row_refs = refs'\<rparr>)))
         | CHANGE_TYPE \<Rightarrow> rewrite (change_type_value B col (newType p))
         | DROP_COLUMN \<Rightarrow>
             (let (refs', S') = map_refs (store_drop_row col) refs S
              in Some (S', hst\<lparr>row_refs := refs'\<rparr>))
         | TRIM_WHITESPACE \<Rightarrow> rewrite (text_value (trim B) col)
         | LOWERCASE \<Rightarrow> rewrite (text_value (lower B) col)
         | UPPERCASE \<Rightarrow> rewrite (text_value (upper B) col)
         | REMOVE_NON_ALPHANUM \<Rightarrow> rewrite (text_value (removeNonAlphanum B) col)
         | CAPITALIZE_WORDS \<Rightarrow> rewrite (text_value (capitalizeWords B) col)
         | REPLACE_SUBSTRING \<Rightarrow> rewrite (replace_value B col (find p) (replaceWith p))
         | EXTRACT_DATE_PART \<Rightarrow> rewrite (extract_value B col (part p))
         | NUMBER_ROUND \<Rightarrow>
             (let places = (case roundTo p of None \<Rightarrow> 0 | Some n \<Rightarrow> n);
                  factor = 10 powr places
              in rewrite (round_value B col factor))
         | NUMBER_SCALE \<Rightarrow>
             (let nums = column_numbers B (map (preview_row S) refs) col;
                  finite = finite_values nums
              in if finite = [] then Some (S, hst)
                 else let mn = min_list_js finite;
                          mx = max_list_js finite;
                          outMin = (case scaleMin p of None \<Rightarrow> 0 | Some m \<Rightarrow> m);
                          outMax = (case scaleMax p of None \<Rightarrow> 1 | Some m \<Rightarrow> m)
                      in rewrite (scale_value B col mn mx outMin outMax)))"

fun store_run_actions ::
  "builtins \<Rightarrow> store \<Rightarrow> store_state \<Rightarrow> 'a action_spec_scheme list \<Rightarrow> (store \<times> store_state) option" where
  "store_run_actions B S hst [] = Some (S, hst)"
| "store_run_actions B S hst (action # rest) =
     (case store_apply_action B S hst action of
        None \<Rightarrow> None
      | Some (S', hst') \<Rightarrow> store_run_actions B S' hst' rest)"

text \<open>
  The first statement of the computation: a new preview row for every row of the dataset,
  with the values of that row, nothing changed yet.
\<close>

definition wrap_row :: "ref \<Rightarrow> store \<Rightarrow> ref \<times> store" where
  "wrap_row d S =
     allocate (PreviewRowObject
       (map (\<lambda>(key, v). (key, \<lparr>cell_value = v, isChanged = False\<rparr>)) (data_row S d))) S"

text \<open>
  The whole computation on the store, for a dataset given by the references of its rows:
  the result holds the references of the preview rows and the statistics. Each run starts
  with a cache of its own.
\<close>

record stored_preview =
  preview_refs :: "ref list"
  preview_stats :: preview_stats

definition store_preview ::
  "builtins \<Rightarrow> store \<Rightarrow> ref list \<Rightarrow> 'a action_spec_scheme list \<Rightarrow> (store \<times> stored_preview) option" where
  "store_preview B S dataset actions =
     (let (refs, S0) = map_refs wrap_row dataset S
      in case store_run_actions B S0 \<lparr>cache = Map.empty, row_refs = refs\<rparr> actions of
           None \<Rightarrow> None
         | Some (S', hst) \<Rightarrow>
             (let flattened = map (\<lambda>r. flatten_row (preview_row S' r)) (row_refs hst);
                  miss = foldl (\<lambda>sum row. sum + length (filter isNullish (map snd row))) 0 flattened
              in case all_keys B flattened of
                   None \<Rightarrow> None
                 | Some keys \<Rightarrow>
                     Some (S', \<lparr>preview_refs = row_refs hst,
                                preview_stats = \<lparr>missing = miss,
                                     dups = length flattened - length (remdups keys)\<rparr>\<rparr>)))"


section \<open>Predicates and example inputs of the properties\<close>






text \<open>
  A rounding of real numbers as double arithmetic performs it (to the nearest double): it
  is monotone and leaves the numbers \<open>k / 4\<close> with \<open>|k| \<le> 2\<^sup>5\<^sup>3\<close>, which are
  doubles, as they are.
\<close>

definition rounding :: "(real \<Rightarrow> real) \<Rightarrow> bool" where
  "rounding rnd =
     ((\<forall>x y. x \<le> y \<longrightarrow> rnd x \<le> rnd y) \<and>
      (\<forall>k :: int. \<bar>k\<bar> \<le> 2 ^ 53 \<longrightarrow> rnd (real_of_int k / 4) = real_of_int k / 4))"

text \<open>A rounding that moves the numbers from 0.3 to 0.33 up to 0.33.\<close>

definition skewed :: "real \<Rightarrow> real" where
  "skewed x = (if 3 / 10 \<le> x \<and> x \<le> 33 / 100 then 33 / 100 else x)"

text \<open>The actions that read the cache of parsed numbers of column \<open>col\<close>.\<close>

definition uses_cache :: "string \<Rightarrow> 'a action_spec_scheme \<Rightarrow> bool" where
  "uses_cache col a =
     (action_type a = FILL_MISSING \<and>
      (strategy (payload a) = Some Mean \<or> strategy (payload a) = Some Median) \<and>
      key_of (columnName (payload a)) = col)"

text \<open>Actions as the buttons of the workbench build them, with the description left empty.\<close>

definition fill_on :: "string \<Rightarrow> fill_strategy \<Rightarrow> action_spec" where
  "fill_on c s = step FILL_MISSING (empty_payload\<lparr>columnName := Some c, strategy := Some s\<rparr>)"

definition replace_in :: "string \<Rightarrow> string \<Rightarrow> string \<Rightarrow> action_spec" where
  "replace_in c f r =
     step REPLACE_SUBSTRING
       (empty_payload\<lparr>columnName := Some c, find := Some f, replaceWith := Some r\<rparr>)"

definition drop_column :: "string \<Rightarrow> action_spec" where
  "drop_column c = step DROP_COLUMN (empty_payload\<lparr>columnName := Some c\<rparr>)"

definition scale_to :: "string \<Rightarrow> real \<Rightarrow> real \<Rightarrow> action_spec" where
  "scale_to c lo hi =
     step NUMBER_SCALE (empty_payload\<lparr>columnName := Some c, scaleMin := Some lo, scaleMax := Some hi\<rparr>)"

text \<open>A column of five texts, four of them distinct.\<close>

definition five_rows :: "jsval obj list" where
  "five_rows =
     [[(''c'', VStr ''a'')], [(''c'', VStr ''b'')], [(''c'', VStr ''c'')],
      [(''c'', VStr ''d'')], [(''c'', VStr ''d'')]]"





text \<open>One cell 1 in column \<^verbatim>\<open>c\<close>; the column is dropped, then its missing cells are filled.\<close>

definition drop_fill_data :: DatasetLike where
  "drop_fill_data = \<lparr>columns = [''c''], data = [[(''c'', VNum (Fin 1))]]\<rparr>"

definition drop_fill_queue :: "action_spec list" where
  "drop_fill_queue = [drop_column ''c'', fill_on ''c'' Zero]"

text \<open>The column \<^verbatim>\<open>age\<close> = 10, missing, 30 and the column \<^verbatim>\<open>x\<close> = 0, 5, 10.\<close>

definition age_data :: DatasetLike where
  "age_data =
     \<lparr>columns = [''age''],
      data = [[(''age'', VNum (Fin 10))], [(''age'', VNull)], [(''age'', VNum (Fin 30))]]\<rparr>"

definition age_filled :: "PreviewRow list" where
  "age_filled =
     [[(''age'', \<lparr>cell_value = VNum (Fin 10), isChanged = False\<rparr>)],
      [(''age'', \<lparr>cell_value = VNum (Fin 20), isChanged = True\<rparr>)],
      [(''age'', \<lparr>cell_value = VNum (Fin 30), isChanged = False\<rparr>)]]"


text \<open>
  Four rows with the numeric columns \<^verbatim>\<open>a\<close> and \<^verbatim>\<open>b\<close>; the second row has no
  value in \<^verbatim>\<open>a\<close>. Over the three complete rows the two columns are uncorrelated.
\<close>

definition gap_rows :: "jsval obj list" where
  "gap_rows =
     [[(''a'', VNum (Fin 1)), (''b'', VNum (Fin 1))],
      [(''b'', VNum (Fin 2))],
      [(''a'', VNum (Fin 2)), (''b'', VNum (Fin 3))],
      [(''a'', VNum (Fin 3)), (''b'', VNum (Fin 1))]]"

text \<open>The column \<^verbatim>\<open>age\<close> = 10, \<^verbatim>\<open>""\<close>, 30: the missing value is an empty string.\<close>

definition blank_age_data :: DatasetLike where
  "blank_age_data =
     \<lparr>columns = [''age''],
      data = [[(''age'', VNum (Fin 10))], [(''age'', VStr [])], [(''age'', VNum (Fin 30))]]\<rparr>"

text \<open>
  A dataset whose only column has the empty name, with the values 10, missing, 30, and the
  queue that three proposals build on it: a mean fill of the column, its drop, and a second
  mean fill.
\<close>

definition unnamed_data :: DatasetLike where
  "unnamed_data =
     \<lparr>columns = [[]],
      data = [[([], VNum (Fin 10))], [([], VNull)], [([], VNum (Fin 30))]]\<rparr>"

definition unnamed_queue :: "CleaningAction list" where
  "unnamed_queue =
     (let q1 = fst (handleAddAction ''1'' [] (fill_on [] Mean));
          q2 = fst (handleAddAction ''2'' q1 (drop_column []));
          q3 = fst (handleAddAction ''3'' q2 (fill_on [] Mean))
      in q3)"

text \<open>The values 10, missing, 30 in a column named \<^verbatim>\<open>constructor\<close>.\<close>

definition constructor_data :: DatasetLike where
  "constructor_data =
     \<lparr>columns = [''constructor''],
      data = [[(''constructor'', VNum (Fin 10))], [(''constructor'', VNull)],
              [(''constructor'', VNum (Fin 30))]]\<rparr>"

text \<open>
  The store \<open>S'\<close> extends the store \<open>S\<close>: every object of \<open>S\<close> is in \<open>S'\<close> as
  it was. The references \<open>refs\<close> point to objects of \<open>S\<close>.
\<close>

definition unchanged_before :: "store \<Rightarrow> store \<Rightarrow> bool" where
  "unchanged_before S S' =
     (next_ref S \<le> next_ref S' \<and> (\<forall>r<next_ref S. objects S' r = objects S r))"

definition allocated :: "store \<Rightarrow> ref list \<Rightarrow> bool" where
  "allocated S refs = list_all (\<lambda>r. r < next_ref S) refs"

text \<open>A callback of the executor on a row, from the part of it that reads the row.\<close>

definition rewritten :: "(PreviewRow \<Rightarrow> jsval option) \<Rightarrow> string \<Rightarrow> PreviewRow \<Rightarrow> PreviewRow" where
  "rewritten next_value col row =
     (case next_value row of None \<Rightarrow> row | Some nv \<Rightarrow> setCell row col nv)"

text \<open>The preview behind a result on the store: the rows as they are in the store it left.\<close>

definition shown :: "(store \<times> stored_preview) option \<Rightarrow> preview_result option" where
  "shown res =
     map_option
       (\<lambda>(S, p). \<lparr>preview_data = map (preview_row S) (preview_refs p), stats = preview_stats p\<rparr>)
       res"

text \<open>
  Two stores that hold the three rows of the column \<^verbatim>\<open>age\<close>: one holds nothing else, the
  other holds them at other references, among other objects.
\<close>

definition age_store :: store where
  "age_store =
     \<lparr>objects = [0 \<mapsto> DataRow [(''age'', VNum (Fin 10))],
                 1 \<mapsto> DataRow [(''age'', VNull)],
                 2 \<mapsto> DataRow [(''age'', VNum (Fin 30))]],
      next_ref = 3\<rparr>"

definition busy_store :: store where
  "busy_store =
     \<lparr>objects = [0 \<mapsto> PreviewRowObject [(''age'', \<lparr>cell_value = VNum (Fin 7), isChanged = True\<rparr>)],
                 1 \<mapsto> DataRow [(''age'', VNum (Fin 10))],
                 2 \<mapsto> DataRow [(''other'', VStr ''x'')],
                 3 \<mapsto> DataRow [(''age'', VNull)],
                 4 \<mapsto> DataRow [(''age'', VNum (Fin 30))]],
      next_ref = 5\<rparr>"

text \<open>The same step queued twice, under two identifiers and two descriptions.\<close>

definition queued_fill :: "CleaningAction list" where
  "queued_fill =
     [\<lparr>action_type = FILL_MISSING, description = ''Fill missing in age using mean'',
       payload = empty_payload\<lparr>columnName := Some ''age'', strategy := Some Mean\<rparr>,
       action_id = ''1''\<rparr>]"

definition queued_fill_again :: "CleaningAction list" where
  "queued_fill_again =
     [\<lparr>action_type = FILL_MISSING, description = ''the same step, proposed later'',
       payload = empty_payload\<lparr>columnName := Some ''age'', strategy := Some Mean\<rparr>,
       action_id = ''2''\<rparr>]"


section \<open>Properties of the statistical profiler\<close>

text \<open>
  What is used of the rounding of double arithmetic: it is monotone, and it leaves a
  multiple of a quarter of magnitude up to \<open>2\<^sup>5\<^sup>1\<close> as it is. Exact arithmetic is
  one instance.
\<close>

lemma rounding_id: "rounding (\<lambda>x. x)"
  by (simp add: rounding_def)

lemma rounding_mono: "rounding rnd \<Longrightarrow> x \<le> y \<Longrightarrow> rnd x \<le> rnd y"
  by (simp add: rounding_def)

lemma rounding_quarter: "rounding rnd \<Longrightarrow> \<bar>k\<bar> \<le> 2 ^ 53 \<Longrightarrow> rnd (real_of_int k / 4) = real_of_int k / 4"
  by (simp add: rounding_def)

lemma rounding_int:
  assumes "rounding rnd" and "\<bar>k\<bar> \<le> 2 ^ 51"
  shows "rnd (real_of_int k) = real_of_int k"
proof -
  have "\<bar>4 * k\<bar> \<le> 2 ^ 53" using assms(2) by simp
  from rounding_quarter [OF assms(1) this] show ?thesis by simp
qed

text \<open>A value between two integers is rounded to a value between them.\<close>

lemma rounding_between:
  assumes r: "rounding rnd" and lo: "real_of_int l \<le> x" and hi: "x \<le> real_of_int u"
    and bl: "\<bar>l\<bar> \<le> 2 ^ 51" and bu: "\<bar>u\<bar> \<le> 2 ^ 51"
  shows "real_of_int l \<le> rnd x \<and> rnd x \<le> real_of_int u"
  using rounding_mono [OF r lo] rounding_mono [OF r hi] rounding_int [OF r bl] rounding_int [OF r bu]
  by simp

lemma ex_sum:
  assumes r: "rounding rnd"
  shows "sum_r rnd [10, 12, 11, 13, 1000] = 1046"
proof -
  have e: "rnd 10 = 10" "rnd 22 = 22" "rnd 33 = 33" "rnd 46 = 46" "rnd 1046 = 1046"
    using rounding_int [OF r, of 10] rounding_int [OF r, of 22] rounding_int [OF r, of 33]
      rounding_int [OF r, of 46] rounding_int [OF r, of 1046] by simp_all
  show ?thesis by (simp add: sum_r_def e)
qed

lemma ex_mean:
  assumes r: "rounding rnd"
  shows "209 \<le> mean_r rnd [10, 12, 11, 13, 1000] \<and> mean_r rnd [10, 12, 11, 13, 1000] \<le> 210"
  using rounding_between [OF r, of 209 "1046 / 5" 210]
  by (simp add: mean_r_def ex_sum [OF r])


lemma sq_bounds:
  fixes d :: real
  assumes "l \<le> \<bar>d\<bar>" and "\<bar>d\<bar> \<le> u" and "0 \<le> l"
  shows "l ^ 2 \<le> d ^ 2 \<and> d ^ 2 \<le> u ^ 2"
proof -
  have "l ^ 2 \<le> \<bar>d\<bar> ^ 2" using assms(1,3) by (rule power_mono)
  moreover have "\<bar>d\<bar> ^ 2 \<le> u ^ 2" using assms(2) by (rule power_mono) simp
  ultimately show ?thesis by simp
qed

lemma ex_small_square:
  assumes r: "rounding rnd" and m: "209 \<le> m" "m \<le> 210" and x: "10 \<le> x" "x \<le> 13"
  shows "- 200 \<le> rnd (x - m) \<and> rnd (x - m) \<le> - 196
       \<and> 38416 \<le> rnd ((rnd (x - m)) ^ 2) \<and> rnd ((rnd (x - m)) ^ 2) \<le> 40000"
proof -
  have d: "- 200 \<le> rnd (x - m) \<and> rnd (x - m) \<le> - 196"
    using rounding_between [OF r, of "- 200" "x - m" "- 196"] m x by simp
  then have "196 \<le> \<bar>rnd (x - m)\<bar>" "\<bar>rnd (x - m)\<bar> \<le> 200" by linarith+
  from sq_bounds [OF this] have "38416 \<le> (rnd (x - m)) ^ 2 \<and> (rnd (x - m)) ^ 2 \<le> 40000"
    by simp
  with rounding_between [OF r, of 38416 "(rnd (x - m)) ^ 2" 40000] d show ?thesis by simp
qed

lemma ex_large_square:
  assumes r: "rounding rnd" and m: "209 \<le> m" "m \<le> 210"
  shows "790 \<le> rnd (1000 - m) \<and> rnd (1000 - m) \<le> 791
       \<and> 624100 \<le> rnd ((rnd (1000 - m)) ^ 2) \<and> rnd ((rnd (1000 - m)) ^ 2) \<le> 625681"
proof -
  have d: "790 \<le> rnd (1000 - m) \<and> rnd (1000 - m) \<le> 791"
    using rounding_between [OF r, of 790 "1000 - m" 791] m by simp
  then have "790 \<le> \<bar>rnd (1000 - m)\<bar>" "\<bar>rnd (1000 - m)\<bar> \<le> 791" by linarith+
  from sq_bounds [OF this] have "624100 \<le> (rnd (1000 - m)) ^ 2 \<and> (rnd (1000 - m)) ^ 2 \<le> 625681"
    by simp
  with rounding_between [OF r, of 624100 "(rnd (1000 - m)) ^ 2" 625681] d show ?thesis by simp
qed

lemma ex_stdDev:
  assumes r: "rounding rnd"
  shows "440 \<le> stdDev rnd [10, 12, 11, 13, 1000] \<and> stdDev rnd [10, 12, 11, 13, 1000] \<le> 444"
proof -
  define m where "m = mean_r rnd [10, 12, 11, 13, 1000]"
  have m: "209 \<le> m" "m \<le> 210" using ex_mean [OF r] by (simp_all add: m_def)
  define q where "q x = rnd ((rnd (x - m)) ^ 2)" for x
  have small: "38416 \<le> q x \<and> q x \<le> 40000" if "10 \<le> x" "x \<le> 13" for x
    unfolding q_def using ex_small_square [OF r m that] by simp
  have q10: "38416 \<le> q 10 \<and> q 10 \<le> 40000" by (rule small) simp_all
  have q12: "38416 \<le> q 12 \<and> q 12 \<le> 40000" by (rule small) simp_all
  have q11: "38416 \<le> q 11 \<and> q 11 \<le> 40000" by (rule small) simp_all
  have q13: "38416 \<le> q 13 \<and> q 13 \<le> 40000" by (rule small) simp_all
  have q1000: "624100 \<le> q 1000 \<and> q 1000 \<le> 625681"
    unfolding q_def using ex_large_square [OF r m] by simp
  define t1 where "t1 = rnd (0 + q 10)"
  define t2 where "t2 = rnd (t1 + q 12)"
  define t3 where "t3 = rnd (t2 + q 11)"
  define t4 where "t4 = rnd (t3 + q 13)"
  define t5 where "t5 = rnd (t4 + q 1000)"
  have t1: "38416 \<le> t1 \<and> t1 \<le> 40000"
    unfolding t1_def using rounding_between [OF r, of 38416 "0 + q 10" 40000] q10 by simp
  have t2: "76832 \<le> t2 \<and> t2 \<le> 80000"
    unfolding t2_def using rounding_between [OF r, of 76832 "t1 + q 12" 80000] t1 q12 by simp
  have t3: "115248 \<le> t3 \<and> t3 \<le> 120000"
    unfolding t3_def using rounding_between [OF r, of 115248 "t2 + q 11" 120000] t2 q11 by simp
  have t4: "153664 \<le> t4 \<and> t4 \<le> 160000"
    unfolding t4_def using rounding_between [OF r, of 153664 "t3 + q 13" 160000] t3 q13 by simp
  have t5: "777764 \<le> t5 \<and> t5 \<le> 785681"
    unfolding t5_def using rounding_between [OF r, of 777764 "t4 + q 1000" 785681] t4 q1000 by simp
  have v: "variance rnd [10, 12, 11, 13, 1000] = rnd (t5 / 4)"
    by (simp add: variance_def Let_def sum_r_def m_def [symmetric] q_def [symmetric]
        t1_def t2_def t3_def t4_def t5_def)
  have vb: "194441 \<le> rnd (t5 / 4) \<and> rnd (t5 / 4) \<le> 196421"
    using rounding_between [OF r, of 194441 "t5 / 4" 196421] t5 by simp
  have "440 \<le> sqrt (rnd (t5 / 4))" by (rule real_le_rsqrt) (use vb in simp)
  moreover have "sqrt (rnd (t5 / 4)) \<le> 444" by (rule real_le_lsqrt) (use vb in simp_all)
  ultimately show ?thesis
    using rounding_between [OF r, of 440 "sqrt (rnd (t5 / 4))" 444] by (simp add: stdDev_def v)
qed

lemma upt_5: "[0..<5] = [0, 1, 2, 3, 4]"
  by (simp add: upt_rec)

lemma ex_scores:
  assumes r: "rounding rnd"
  defines "m \<equiv> mean_r rnd [10, 12, 11, 13, 1000]" and "s \<equiv> stdDev rnd [10, 12, 11, 13, 1000]"
  shows "\<forall>x \<in> {10, 12, 11, 13}. \<bar>rnd (rnd (x - m) / s)\<bar> \<le> 1"
    and "7 / 4 \<le> \<bar>rnd (rnd (1000 - m) / s)\<bar> \<and> \<bar>rnd (rnd (1000 - m) / s)\<bar> \<le> 2"
proof -
  have m: "209 \<le> m" "m \<le> 210" using ex_mean [OF r] by (simp_all add: m_def)
  have s: "440 \<le> s" "s \<le> 444" using ex_stdDev [OF r] by (simp_all add: s_def)
  then have pos: "0 < s" by linarith
  have small: "\<bar>rnd (rnd (x - m) / s)\<bar> \<le> 1" if x: "10 \<le> x" "x \<le> 13" for x
  proof -
    have d: "- 200 \<le> rnd (x - m)" "rnd (x - m) \<le> - 196"
      using ex_small_square [OF r m x] by simp_all
    have "- 1 \<le> rnd (x - m) / s" using d s pos by (simp add: pos_le_divide_eq)
    moreover have "rnd (x - m) / s \<le> 0" using d pos by (simp add: pos_divide_le_eq)
    ultimately show ?thesis
      using rounding_between [OF r, of "- 1" "rnd (x - m) / s" 0] by simp
  qed
  show "\<forall>x \<in> {10, 12, 11, 13}. \<bar>rnd (rnd (x - m) / s)\<bar> \<le> 1"
    using small by simp
  have d: "790 \<le> rnd (1000 - m)" "rnd (1000 - m) \<le> 791"
    using ex_large_square [OF r m] by simp_all
  have lo: "7 / 4 \<le> rnd (1000 - m) / s" using d s pos by (simp add: pos_le_divide_eq)
  have hi: "rnd (1000 - m) / s \<le> 2" using d s pos by (simp add: pos_divide_le_eq)
  have "rnd (7 / 4) = 7 / 4" using rounding_quarter [OF r, of 7] by simp
  then have "7 / 4 \<le> rnd (rnd (1000 - m) / s)" using rounding_mono [OF r lo] by simp
  moreover have "rnd (rnd (1000 - m) / s) \<le> 2"
    using rounding_mono [OF r hi] rounding_int [OF r, of 2] by simp
  ultimately show "7 / 4 \<le> \<bar>rnd (rnd (1000 - m) / s)\<bar> \<and> \<bar>rnd (rnd (1000 - m) / s)\<bar> \<le> 2"
    by simp
qed

lemma example_threshold_5_2:
  assumes r: "rounding rnd"
  shows "idx (zScoreOutliers rnd [10, 12, 11, 13, 1000] (5 / 2)) = []"
  using ex_scores [OF r]
  by (auto simp: zScoreOutliers_def Let_def upt_5)

lemma example_threshold_3_2:
  assumes r: "rounding rnd"
  shows "idx (zScoreOutliers rnd [10, 12, 11, 13, 1000] (3 / 2)) = [4]"
  using ex_scores [OF r] ex_stdDev [OF r]
  by (auto simp: zScoreOutliers_def Let_def upt_5)


lemma rounding_zero: "rounding rnd \<Longrightarrow> rnd 0 = 0"
  using rounding_int [of rnd 0] by simp

lemma stdDev_short: "rounding rnd \<Longrightarrow> length a < 2 \<Longrightarrow> stdDev rnd a = 0"
  by (simp add: stdDev_def variance_def rounding_zero)

lemma sum_r_snoc: "sum_r rnd (a @ [x]) = rnd (sum_r rnd a + x)"
  by (simp add: sum_r_def)

lemma replicate_Suc_snoc: "replicate (Suc n) x = replicate n x @ [x]"
  by (simp add: replicate_append_same)

lemma sum_r_zeros: "rounding rnd \<Longrightarrow> sum_r rnd (replicate n 0) = 0"
proof (induction n)
  case 0
  then show ?case by (simp add: sum_r_def)
next
  case (Suc n)
  then show ?case
    unfolding replicate_Suc_snoc sum_r_snoc by (simp add: rounding_zero)
qed

lemma sum_r_ints:
  assumes r: "rounding rnd" and b: "\<bar>int n * c\<bar> \<le> 2 ^ 51"
  shows "sum_r rnd (replicate n (real_of_int c)) = real_of_int (int n * c)"
  using b
proof (induction n)
  case 0
  then show ?case by (simp add: sum_r_def)
next
  case (Suc n)
  have "\<bar>int n * c\<bar> \<le> \<bar>int (Suc n) * c\<bar>"
    by (simp add: abs_mult mult_right_mono)
  with Suc.prems have "\<bar>int n * c\<bar> \<le> 2 ^ 51" by linarith
  then have ih: "sum_r rnd (replicate n (real_of_int c)) = real_of_int (int n * c)"
    by (rule Suc.IH)
  have "sum_r rnd (replicate (Suc n) (real_of_int c))
      = rnd (sum_r rnd (replicate n (real_of_int c)) + real_of_int c)"
    unfolding replicate_Suc_snoc by (rule sum_r_snoc)
  also have "\<dots> = rnd (real_of_int (int (Suc n) * c))"
    by (simp add: ih algebra_simps)
  also have "\<dots> = real_of_int (int (Suc n) * c)"
    using r Suc.prems by (rule rounding_int)
  finally show ?case .
qed

lemma stdDev_constant_ints:
  assumes r: "rounding rnd" and c: "\<forall>x\<in>set a. x = real_of_int c"
    and b: "\<bar>int (length a) * c\<bar> \<le> 2 ^ 51"
  shows "stdDev rnd a = 0"
proof (cases "length a < 2")
  case True
  with r show ?thesis by (rule stdDev_short)
next
  case False
  define n where "n = length a"
  have a: "a = replicate n (real_of_int c)"
    using c by (simp add: n_def replicate_length_same)
  have n: "2 \<le> n" using False by (simp add: n_def)
  have "\<bar>c\<bar> \<le> \<bar>int n * c\<bar>"
    using n by (simp add: abs_mult mult_le_cancel_right1)
  with b have bc: "\<bar>c\<bar> \<le> 2 ^ 51" by (simp add: n_def)
  have "sum_r rnd a = real_of_int (int n * c)"
    by (subst a) (rule sum_r_ints [OF r b [folded n_def]])
  then have "mean_r rnd a = rnd (real_of_int c)"
    using n by (simp add: mean_r_def n_def [symmetric])
  then have m: "mean_r rnd a = real_of_int c"
    using rounding_int [OF r bc] by simp
  have "map (\<lambda>x. rnd ((rnd (x - real_of_int c)) ^ 2)) a = replicate n 0"
    by (subst a) (simp add: rounding_zero [OF r])
  then have "variance rnd a = 0"
    using False by (simp add: variance_def Let_def m sum_r_zeros [OF r] rounding_zero [OF r])
  then show ?thesis by (simp add: stdDev_def rounding_zero [OF r])
qed

text \<open>
  Rounding can keep the computed deviation of a constant array from being zero: under the
  rounding \<open>skewed\<close> the sum of three times 0.1 is not three times 0.1, the mean is
  not 0.1, and every index of the constant array is flagged at the threshold 0.5. (Doubles
  do the same to this array: their sum is 0.30000000000000004.)
\<close>

lemma rounding_skewed: "rounding skewed"
proof -
  have "\<not> (3 / 10 \<le> real_of_int k / 4 \<and> real_of_int k / 4 \<le> 33 / 100)" for k :: int
  proof
    assume h: "3 / 10 \<le> real_of_int k / 4 \<and> real_of_int k / 4 \<le> 33 / 100"
    then have "real_of_int 1 < real_of_int k" "real_of_int k < real_of_int 2" by simp_all
    then have "1 < k" "k < 2" by (simp_all only: of_int_less_iff)
    then show False by simp
  qed
  then show ?thesis by (auto simp: rounding_def skewed_def)
qed

lemma skewed_below: "x < 3 / 10 \<Longrightarrow> skewed x = x"
  by (simp add: skewed_def)

lemma upt_3: "[0..<3] = [0, 1, 2]"
  by (simp add: upt_rec)

lemma constant_array_flagged:
  "idx (zScoreOutliers skewed [1 / 10, 1 / 10, 1 / 10] (1 / 2)) = [0, 1, 2]"
proof -
  have m: "mean_r skewed [1 / 10, 1 / 10, 1 / 10] = 11 / 100"
    by (simp add: mean_r_def sum_r_def skewed_def)
  have v: "variance skewed [1 / 10, 1 / 10, 1 / 10] = 3 / 20000"
    by (simp add: variance_def m sum_r_def skewed_def power2_eq_square)
  have lo: "1 / 100 \<le> sqrt (3 / 20000)" by (rule real_le_rsqrt) (simp add: power2_eq_square)
  have hi: "sqrt (3 / 20000) \<le> 15 / 1000" by (rule real_le_lsqrt) (simp_all add: power2_eq_square)
  define s where "s = sqrt (3 / 20000)"
  have s: "stdDev skewed [1 / 10, 1 / 10, 1 / 10] = s"
    using lo hi by (simp add: stdDev_def v skewed_def s_def)
  have sb: "1 / 100 \<le> s" "s \<le> 15 / 1000"
    using lo hi by (simp_all add: s_def)
  then have pos: "0 < s" by linarith
  have d: "skewed (1 / 10 - 11 / 100) = - (1 / 100)" by (simp add: skewed_def)
  have "- (1 / 100) / s < 0" using pos by simp
  then have "- (1 / 100) / s < 3 / 10" by linarith
  then have z: "skewed (skewed (1 / 10 - 11 / 100) / s) = - (1 / 100) / s"
    unfolding d by (rule skewed_below)
  have "\<bar>- (1 / 100) / s\<bar> = (1 / 100) / s" using pos by simp
  moreover have "1 / 2 < (1 / 100) / s" using pos sb by (simp add: pos_less_divide_eq)
  ultimately have f: "1 / 2 < \<bar>skewed (skewed (1 / 10 - 11 / 100) / s)\<bar>"
    by (simp only: z)
  have s0: "s \<noteq> 0" using pos by simp
  show ?thesis
    using f s0 by (simp add: zScoreOutliers_def Let_def m s upt_3)
qed

text \<open>
  Claim C6, as the specification states it, fails at its own example: the five values
  10, 12, 11, 13, 1000 have mean 209.2 and sample standard deviation about 442, so the
  z-score of 1000 is about 1.79 and the threshold 2.5 flags nothing, whatever the rounding
  of the arithmetic; index 4 is not returned.
\<close>

theorem zScoreOutliers_example_counterexample:
  "\<not> (\<exists>rnd. rounding rnd \<and> idx (zScoreOutliers rnd [10, 12, 11, 13, 1000] (5 / 2)) = [4])"
  by (auto simp: example_threshold_5_2)

text \<open>
  Claim C6, amended. \<^verbatim>\<open>zScoreOutliers\<close> returns, in increasing order, exactly the indices
  whose absolute standardized deviation, as computed, exceeds the threshold, together with
  their number; it returns no index when the computed standard deviation is 0, in
  particular for fewer than two values and for a constant array of integers whose sum is
  exact, whatever the threshold. On 10, 12, 11, 13, 1000 the threshold 2.5 flags nothing,
  and the threshold 1.5 flags exactly the index of 1000. (A constant array whose sum is
  rounded is left out: see \<open>constant_array_flagged\<close>.)
\<close>

theorem zScoreOutliers_amended:
  assumes "rounding rnd"
  shows "idx (zScoreOutliers rnd a t) =
           filter (\<lambda>i. stdDev rnd a \<noteq> 0 \<and>
                        t < \<bar>rnd (rnd (a ! i - mean_r rnd a) / stdDev rnd a)\<bar>) [0..<length a]
       \<and> count (zScoreOutliers rnd a t) = length (idx (zScoreOutliers rnd a t))
       \<and> (stdDev rnd a = 0 \<longrightarrow> idx (zScoreOutliers rnd a t) = [])
       \<and> (length a < 2 \<longrightarrow> idx (zScoreOutliers rnd a t) = [])
       \<and> ((\<forall>x\<in>set a. x = real_of_int c) \<and> \<bar>int (length a) * c\<bar> \<le> 2 ^ 51 \<longrightarrow>
            idx (zScoreOutliers rnd a t) = [])
       \<and> idx (zScoreOutliers rnd [10, 12, 11, 13, 1000] (5 / 2)) = []
       \<and> idx (zScoreOutliers rnd [10, 12, 11, 13, 1000] (3 / 2)) = [4]"
proof -
  have zero: "stdDev rnd a = 0 \<Longrightarrow> idx (zScoreOutliers rnd a t) = []"
    by (simp add: zScoreOutliers_def)
  have "idx (zScoreOutliers rnd a t) =
           filter (\<lambda>i. stdDev rnd a \<noteq> 0 \<and>
                        t < \<bar>rnd (rnd (a ! i - mean_r rnd a) / stdDev rnd a)\<bar>) [0..<length a]"
    by (simp add: zScoreOutliers_def Let_def)
  moreover have "count (zScoreOutliers rnd a t) = length (idx (zScoreOutliers rnd a t))"
    by (simp add: zScoreOutliers_def Let_def)
  moreover have "length a < 2 \<longrightarrow> idx (zScoreOutliers rnd a t) = []"
    using zero stdDev_short [OF assms] by blast
  moreover have "(\<forall>x\<in>set a. x = real_of_int c) \<and> \<bar>int (length a) * c\<bar> \<le> 2 ^ 51 \<longrightarrow>
            idx (zScoreOutliers rnd a t) = []"
    using zero stdDev_constant_ints [OF assms] by blast
  ultimately show ?thesis
    using zero example_threshold_5_2 [OF assms] example_threshold_3_2 [OF assms] by blast
qed

theorem zScoreOutliers_amended_witness:
  "rounding (\<lambda>x. x)
   \<and> length [5 :: real] < 2 \<and> idx (zScoreOutliers (\<lambda>x. x) [5] 0) = []
   \<and> set [7, 7, 7 :: real] = {real_of_int 7} \<and> \<bar>int (length [7, 7, 7 :: real]) * 7\<bar> \<le> 2 ^ 51
   \<and> idx (zScoreOutliers (\<lambda>x. x) [7, 7, 7] 0) = []
   \<and> idx (zScoreOutliers (\<lambda>x. x) [10, 12, 11, 13, 1000] (3 / 2)) = [4]"
proof -
  note t = zScoreOutliers_amended [OF rounding_id]
  have c: "(\<forall>x\<in>set [7, 7, 7 :: real]. x = real_of_int 7)
      \<and> \<bar>int (length [7, 7, 7 :: real]) * 7\<bar> \<le> 2 ^ 51" by simp
  have l: "length [5 :: real] < 2" by simp
  have "idx (zScoreOutliers (\<lambda>x. x) [5] 0) = []"
    using t [of "[5]" 0 0] l by blast
  moreover have "idx (zScoreOutliers (\<lambda>x. x) [7, 7, 7] 0) = []"
    using t [of "[7, 7, 7]" 0 7] c by blast
  moreover have "idx (zScoreOutliers (\<lambda>x. x) [10, 12, 11, 13, 1000] (3 / 2)) = [4]"
    using t [of "[]" 0 0] by blast
  ultimately show ?thesis using rounding_id by simp
qed

lemma sqrt_36: "sqrt 36 = 6"
proof -
  have "sqrt ((6::real)\<^sup>2) = 6" by simp
  then show ?thesis by simp
qed

text \<open>
  Claim C7 fails on \<^verbatim>\<open>pearson\<close> of Analytics.tsx: the loop skips a pair with a non-finite
  member, but the formula keeps \<open>n\<close>, the number of all pairs. With one finite pair out
  of two the function returns 1 where the claim demands 0; the sibling implementation of
  the shared utilities, which counts the pairs it kept, returns 0. The correlation entries
  fail as well: each column is filtered on its own, so a gap in one column shifts its
  values against the other. For the four rows \<open>gap_rows\<close> the entry is 1, while the
  coefficient over the index-aligned finite pairs is 0.
\<close>

theorem pearson_counts_skipped_pairs:
  "pearson [Fin 1, NaN] [Fin 1, Fin 1] = 1
   \<and> pearson_util [Fin 1, NaN] [Fin 1, Fin 1] = 0
   \<and> correlation_entry B gap_rows ''a'' ''b'' = Some 1
   \<and> pearson_util (map (\<lambda>r. Number_js B (get_prop r ''a'')) gap_rows)
                    (map (\<lambda>r. Number_js B (get_prop r ''b'')) gap_rows) = 0"
  by (simp add: pearson_def pearson_util_def Let_def correlation_entry_def gap_rows_def
      get_prop_def mean_a_def sum_a_def sqrt_36)


section \<open>Properties of type inference\<close>

text \<open>
  The rule of the shared utility: a column that is not numeric is categorical exactly when
  it has at most 50 distinct values or its distinct-to-total ratio is below 0.2.
\<close>

lemma util_categorical_rule:
  "util_column_type B values \<noteq> Numeric \<Longrightarrow>
     (util_column_type B values = Categorical) =
     (set_size values \<le> 50 \<or> (values \<noteq> [] \<and> real (set_size values) / real (length values) < 0.2))"
  by (auto simp: util_column_type_def Let_def split: if_splits)

lemma util_five_rows:
  "\<forall>s \<in> {''a'', ''b'', ''c'', ''d''}. numberOfString B s = NaN \<Longrightarrow>
   map type (analyzeColumns_util B five_rows) = [Categorical]"
  by (simp add: analyzeColumns_util_def five_rows_def get_prop_def util_column_type_def
      set_size_def Let_def toNumber_def Number_of_string_def)

text \<open>
  Claim C8 fails on \<^verbatim>\<open>analyzeColumns\<close> of the server: its categorical test is
  \<^verbatim>\<open>uniqueValues.size < values.length * 0.1 && uniqueValues.size > 1\<close>, so a text column
  of 5 values with 4 distinct ones is not classified categorical (it is a date column when
  a value parses as a date, a text column otherwise), while the shared utility classifies
  the same column categorical by the rule of the claim.
\<close>

theorem server_five_rows_not_categorical:
  "length five_rows = 5
   \<and> map uniqueCount (analyzeColumns_server B five_rows) = [4]
   \<and> map type (analyzeColumns_server B five_rows) \<noteq> [Categorical]
   \<and> map type (analyzeColumns_server B five_rows) \<noteq> [Numeric]"
  by (simp add: analyzeColumns_server_def five_rows_def get_prop_def server_column_type_def
      set_size_def Let_def)


section \<open>Properties of the action queue\<close>

text \<open>
  The rule of the handler for a proposed action whose column name is not the empty string:
  the action is redundant exactly when a queued action has its kind and, if the proposed
  action names a column, that same column (for a substring replacement also the same
  find-text, whatever the replacement text), or, if it names no column, when it is a
  duplicate removal, the one action that the workbench proposes without a column. A
  redundant proposal leaves the queue as it is and yields the message that a similar step
  exists; any other proposal is appended with the new identifier and reported as added.
  Nothing is raised in either case.
\<close>

lemma redundancy_rule:
  assumes "columnName (payload action) \<noteq> Some []"
  shows "(isRedundant actions action \<longleftrightarrow>
           (\<exists>a\<in>set actions. action_type a = action_type action \<and>
              (case columnName (payload action) of
                 None \<Rightarrow> action_type action = REMOVE_DUPLICATES
               | Some c \<Rightarrow> columnName (payload a) = Some c \<and>
                   (action_type action = REPLACE_SUBSTRING \<longrightarrow>
                      find (payload a) = find (payload action)))))
       \<and> (isRedundant actions action \<longrightarrow>
            handleAddAction new_id actions action =
              (actions, ToastError (''A similar \"'' @ description action @ ''\" step already exists.'')))
       \<and> (\<not> isRedundant actions action \<longrightarrow>
            (\<exists>newAction.
               handleAddAction new_id actions action =
                 (actions @ [newAction], ToastSuccess (''Added: '' @ description action))
               \<and> action_type newAction = action_type action
               \<and> description newAction = description action
               \<and> payload newAction = payload action
               \<and> action_id newAction = new_id))"
proof -
  have "isRedundant actions action \<longleftrightarrow>
           (\<exists>a\<in>set actions. action_type a = action_type action \<and>
              (case columnName (payload action) of
                 None \<Rightarrow> action_type action = REMOVE_DUPLICATES
               | Some c \<Rightarrow> columnName (payload a) = Some c \<and>
                   (action_type action = REPLACE_SUBSTRING \<longrightarrow>
                      find (payload a) = find (payload action))))"
    using assms
    by (cases "columnName (payload action)")
       (auto simp: isRedundant_def list_ex_iff similar_step_def)
  moreover have "isRedundant actions action \<longrightarrow>
            handleAddAction new_id actions action =
              (actions, ToastError (''A similar \"'' @ description action @ ''\" step already exists.''))"
    by (simp add: handleAddAction_def)
  moreover have "\<not> isRedundant actions action \<longrightarrow>
            (\<exists>newAction.
               handleAddAction new_id actions action =
                 (actions @ [newAction], ToastSuccess (''Added: '' @ description action))
               \<and> action_type newAction = action_type action
               \<and> description newAction = description action
               \<and> payload newAction = payload action
               \<and> action_id newAction = new_id)"
    by (simp add: handleAddAction_def Let_def action_spec.extend_def CleaningAction.fields_def)
  ultimately show ?thesis by blast
qed

text \<open>
  Claim C4 fails on the handler for a column whose name is the empty string. The test
  \<^verbatim>\<open>!action.payload.columnName\<close>, meant for the actions without a column, is a test for
  truthiness and takes the empty name for an absent one; the proposal is then compared as
  a duplicate removal would be and is never found redundant. A second fill-missing of the
  column with the empty name is accepted and queued, where the claim rejects it, as the
  handler itself does for a column of any other name: the same two proposals on the column
  \<^verbatim>\<open>age\<close> leave one step in the queue.
\<close>

theorem unnamed_column_filled_twice:
  "handleAddAction ''2'' (fst (handleAddAction ''1'' [] (fill_on [] Mean))) (fill_on [] Median)
     = ([action_spec.extend (fill_on [] Mean) (CleaningAction.fields ''1''),
         action_spec.extend (fill_on [] Median) (CleaningAction.fields ''2'')],
        ToastSuccess ''Added: '')
   \<and> handleAddAction ''2'' (fst (handleAddAction ''1'' [] (fill_on ''age'' Mean)))
         (fill_on ''age'' Median)
     = ([action_spec.extend (fill_on ''age'' Mean) (CleaningAction.fields ''1'')],
        ToastError ''A similar \"\" step already exists.'')"
  by (simp add: handleAddAction_def isRedundant_def similar_step_def fill_on_def step_def
      empty_payload_def Let_def action_spec.extend_def CleaningAction.fields_def)

text \<open>
  The rule on the examples of the specification: with a fill of \<^verbatim>\<open>age\<close> queued, a second
  fill of \<^verbatim>\<open>age\<close> is rejected and the queue stays as it is, a fill of \<^verbatim>\<open>city\<close> is
  appended.
\<close>

lemma fill_redundancy_example:
  "isRedundant queued_fill (fill_on ''age'' Zero)
   \<and> fst (handleAddAction ''2'' queued_fill (fill_on ''age'' Zero)) = queued_fill
   \<and> \<not> isRedundant queued_fill (fill_on ''city'' Zero)
   \<and> length (fst (handleAddAction ''2'' queued_fill (fill_on ''city'' Zero))) = 2"
  by (simp add: handleAddAction_def isRedundant_def similar_step_def queued_fill_def fill_on_def
      step_def empty_payload_def Let_def)

text \<open>
  The finer rule for substring replacement, on an example: the same column and find-text
  are redundant even with another replacement text; another find-text is not.
\<close>

lemma replace_redundancy_example:
  "isRedundant
     [action_spec.extend (replace_in ''c'' ''a'' ''b'') (CleaningAction.fields ''1'')]
     (replace_in ''c'' ''a'' ''z'')
   \<and> \<not> isRedundant
     [action_spec.extend (replace_in ''c'' ''a'' ''b'') (CleaningAction.fields ''1'')]
     (replace_in ''c'' ''b'' ''a'')"
  by (simp add: isRedundant_def similar_step_def replace_in_def step_def empty_payload_def
      action_spec.extend_def CleaningAction.fields_def)


section \<open>Properties of the executor: how rows and cells evolve\<close>









lemma map_of_set_prop:
  "map_of r key \<noteq> None \<Longrightarrow> map_of (set_prop key v r) k = (if k = key then Some v else map_of r k)"
  by (induction r) auto


























lemma run_actions_append:
  "run_actions B st (xs @ ys) =
     (case run_actions B st xs of None \<Rightarrow> None | Some st1 \<Rightarrow> run_actions B st1 ys)"
  by (induction xs arbitrary: st) (auto split: option.splits)

text \<open>Unfolding the executor on a concrete input.\<close>

lemmas exec_simps =
  preview_def initial_state_def initial_rows_def step_def empty_payload_def apply_action_def
  Let_def key_of_def drop_row_def fill_replacement_def fill_row_def setCell_def cell_of_def
  flatten_row_def stableKey_def json_entries_def replace_row_def replaceAll_def text_row_def
  fill_on_def replace_in_def drop_column_def scale_to_def





section \<open>Determinism of the executor\<close>

text \<open>The identifier and the description of a queued action do not enter the computation.\<close>

lemma apply_action_cong:
  "action_type a = action_type b \<Longrightarrow> payload a = payload b \<Longrightarrow>
   apply_action B st a = apply_action B st b"
  by (simp add: apply_action_def)

lemma run_actions_cong:
  "map action_type Q = map action_type Q' \<Longrightarrow> map payload Q = map payload Q' \<Longrightarrow>
   run_actions B st Q = run_actions B st Q'"
proof (induction Q arbitrary: Q' st)
  case Nil
  then show ?case by simp
next
  case (Cons a Q)
  then obtain b R where Q': "Q' = b # R" by (cases Q') auto
  with Cons.prems have ab: "action_type a = action_type b" "payload a = payload b"
    and rest: "map action_type Q = map action_type R" "map payload Q = map payload R"
    by simp_all
  have "apply_action B st a = apply_action B st b" using ab by (rule apply_action_cong)
  moreover have "run_actions B s Q = run_actions B s R" for s
    using rest by (rule Cons.IH)
  ultimately show ?case by (simp add: Q' split: option.splits)
qed

text \<open>
  The executor on the store leaves every object that exists when it starts as it is, and
  its rows are those of the executor on values.
\<close>

lemma unchanged_before_refl: "unchanged_before S S"
  by (simp add: unchanged_before_def)

lemma unchanged_before_trans:
  "unchanged_before S S1 \<Longrightarrow> unchanged_before S1 S2 \<Longrightarrow> unchanged_before S S2"
  by (auto simp: unchanged_before_def)

lemma unchanged_preview_row:
  "unchanged_before S S' \<Longrightarrow> r < next_ref S \<Longrightarrow> preview_row S' r = preview_row S r"
  by (simp add: unchanged_before_def preview_row_def)

lemma unchanged_data_row:
  "unchanged_before S S' \<Longrightarrow> r < next_ref S \<Longrightarrow> data_row S' r = data_row S r"
  by (simp add: unchanged_before_def data_row_def)

lemma unchanged_allocated:
  "unchanged_before S S' \<Longrightarrow> allocated S refs \<Longrightarrow> allocated S' refs"
  by (auto simp: unchanged_before_def allocated_def list_all_iff)

lemma unchanged_preview_rows:
  "unchanged_before S S' \<Longrightarrow> allocated S refs \<Longrightarrow>
   map (preview_row S') refs = map (preview_row S) refs"
  by (auto simp: allocated_def list_all_iff unchanged_preview_row)

lemma unchanged_data_rows:
  "unchanged_before S S' \<Longrightarrow> allocated S refs \<Longrightarrow>
   map (data_row S') refs = map (data_row S) refs"
  by (auto simp: allocated_def list_all_iff unchanged_data_row)

lemma copy_and_set_row:
  assumes "copy_and_set col nv r S = (r', S')"
  shows "unchanged_before S S' \<and> r' < next_ref S'
       \<and> preview_row S' r' = setCell (preview_row S r) col nv"
  using assms
  by (auto simp: copy_and_set_def copy_row_def allocate_def store_setCell_def assign_def
      unchanged_before_def preview_row_def Let_def)

lemma rewrite_row_row:
  assumes "rewrite_row next_value col r S = (r', S')" and "r < next_ref S"
  shows "unchanged_before S S' \<and> r' < next_ref S'
       \<and> preview_row S' r' = rewritten next_value col (preview_row S r)"
proof (cases "next_value (preview_row S r)")
  case None
  with assms show ?thesis
    by (simp add: rewrite_row_def rewritten_def unchanged_before_refl)
next
  case (Some nv)
  with assms(1) have "copy_and_set col nv r S = (r', S')" by (simp add: rewrite_row_def)
  from copy_and_set_row [OF this] Some show ?thesis by (simp add: rewritten_def)
qed

lemma store_drop_row_row:
  assumes "store_drop_row col r S = (r', S')"
  shows "unchanged_before S S' \<and> r' < next_ref S'
       \<and> preview_row S' r' = drop_row col (preview_row S r)"
  using assms
  by (auto simp: store_drop_row_def copy_row_def allocate_def assign_def unchanged_before_def
      preview_row_def drop_row_def Let_def split: if_splits option.splits)

lemma wrap_row_row:
  assumes "wrap_row d S = (r', S')"
  shows "unchanged_before S S' \<and> r' < next_ref S'
       \<and> preview_row S' r' =
           map (\<lambda>(key, v). (key, \<lparr>cell_value = v, isChanged = False\<rparr>)) (data_row S d)"
  using assms
  by (auto simp: wrap_row_def allocate_def unchanged_before_def preview_row_def)

lemma map_refs_rows:
  assumes step: "\<And>r S r' S'. r < next_ref S \<Longrightarrow> f r S = (r', S') \<Longrightarrow>
      unchanged_before S S' \<and> r' < next_ref S' \<and> preview_row S' r' = g (rd S r)"
    and rd: "\<And>S S' r. unchanged_before S S' \<Longrightarrow> r < next_ref S \<Longrightarrow> rd S' r = rd S r"
  shows "allocated S rs \<Longrightarrow> map_refs f rs S = (rs', S') \<Longrightarrow>
     unchanged_before S S' \<and> allocated S' rs' \<and> map (preview_row S') rs' = map (\<lambda>r. g (rd S r)) rs"
proof (induction rs arbitrary: S rs' S')
  case Nil
  then show ?case by (simp add: unchanged_before_refl allocated_def)
next
  case (Cons r rs)
  obtain r1 S1 where f: "f r S = (r1, S1)" by (cases "f r S")
  obtain rs2 S2 where m: "map_refs f rs S1 = (rs2, S2)" by (cases "map_refs f rs S1")
  from Cons.prems(2) f m have res: "rs' = r1 # rs2" "S' = S2" by simp_all
  from Cons.prems(1) have r: "r < next_ref S" and rs: "allocated S rs"
    by (simp_all add: allocated_def)
  from step [OF r f] have u1: "unchanged_before S S1" and r1: "r1 < next_ref S1"
    and row1: "preview_row S1 r1 = g (rd S r)" by simp_all
  have "allocated S1 rs" using u1 rs by (rule unchanged_allocated)
  from Cons.IH [OF this m] have u2: "unchanged_before S1 S2" and a2: "allocated S2 rs2"
    and rows2: "map (preview_row S2) rs2 = map (\<lambda>r. g (rd S1 r)) rs" by simp_all
  have "map (\<lambda>r. g (rd S1 r)) rs = map (\<lambda>r. g (rd S r)) rs"
    using rs rd [OF u1] by (auto simp: allocated_def list_all_iff)
  moreover have "preview_row S2 r1 = preview_row S1 r1"
    using u2 r1 by (rule unchanged_preview_row)
  moreover have "r1 < next_ref S2" using u2 r1 by (simp add: unchanged_before_def)
  ultimately show ?case
    using u1 u2 a2 rows2 row1 res
    by (simp add: allocated_def unchanged_before_trans [OF u1 u2])
qed

lemma map_rewrite_rows:
  assumes "allocated S rs" and "map_refs (rewrite_row next_value col) rs S = (rs', S')"
  shows "unchanged_before S S' \<and> allocated S' rs'
       \<and> map (preview_row S') rs' = map (rewritten next_value col) (map (preview_row S) rs)"
proof -
  have "unchanged_before S S' \<and> allocated S' rs'
       \<and> map (preview_row S') rs' = map (\<lambda>r. rewritten next_value col (preview_row S r)) rs"
    using _ _ assms
  proof (rule map_refs_rows [where rd = preview_row and g = "rewritten next_value col"])
    show "unchanged_before S S' \<and> r' < next_ref S'
        \<and> preview_row S' r' = rewritten next_value col (preview_row S r)"
      if "r < next_ref S" "rewrite_row next_value col r S = (r', S')" for r S r' S'
      using that(2,1) by (rule rewrite_row_row)
  qed (rule unchanged_preview_row)
  then show ?thesis by (simp add: comp_def)
qed

lemma map_drop_rows:
  assumes "allocated S rs" and "map_refs (store_drop_row col) rs S = (rs', S')"
  shows "unchanged_before S S' \<and> allocated S' rs'
       \<and> map (preview_row S') rs' = map (drop_row col) (map (preview_row S) rs)"
proof -
  have "unchanged_before S S' \<and> allocated S' rs'
       \<and> map (preview_row S') rs' = map (\<lambda>r. drop_row col (preview_row S r)) rs"
    using _ _ assms
  proof (rule map_refs_rows [where rd = preview_row and g = "drop_row col"])
    show "unchanged_before S S' \<and> r' < next_ref S'
        \<and> preview_row S' r' = drop_row col (preview_row S r)"
      if "r < next_ref S" "store_drop_row col r S = (r', S')" for r S r' S'
      using that(2) by (rule store_drop_row_row)
  qed (rule unchanged_preview_row)
  then show ?thesis by (simp add: comp_def)
qed

lemma map_wrap_rows:
  assumes "allocated S ds" and "map_refs wrap_row ds S = (rs', S')"
  shows "unchanged_before S S' \<and> allocated S' rs'
       \<and> map (preview_row S') rs' =
           map (map (\<lambda>(key, v). (key, \<lparr>cell_value = v, isChanged = False\<rparr>))) (map (data_row S) ds)"
proof -
  have "unchanged_before S S' \<and> allocated S' rs'
       \<and> map (preview_row S') rs' =
           map (\<lambda>d. map (\<lambda>(key, v). (key, \<lparr>cell_value = v, isChanged = False\<rparr>)) (data_row S d)) ds"
    using _ _ assms
  proof (rule map_refs_rows [where rd = data_row
        and g = "map (\<lambda>(key, v). (key, \<lparr>cell_value = v, isChanged = False\<rparr>))"])
    show "unchanged_before S S' \<and> r' < next_ref S'
        \<and> preview_row S' r' =
            map (\<lambda>(key, v). (key, \<lparr>cell_value = v, isChanged = False\<rparr>)) (data_row S r)"
      if "r < next_ref S" "wrap_row r S = (r', S')" for r S r' S'
      using that(2) by (rule wrap_row_row)
  qed (rule unchanged_data_row)
  then show ?thesis by (simp add: comp_def)
qed

text \<open>The callbacks of the executor, as the decision for a new value and its assignment.\<close>

lemma fill_row_rewritten: "fill_row col v = rewritten (fill_value col v) col"
  by (auto simp: fun_eq_iff fill_row_def rewritten_def fill_value_def split: option.splits)

lemma change_type_row_rewritten:
  "change_type_row B col t = rewritten (change_type_value B col t) col"
  by (auto simp: fun_eq_iff change_type_row_def rewritten_def change_type_value_def
      split: option.splits)

lemma text_row_rewritten: "text_row f col = rewritten (text_value f col) col"
  by (auto simp: fun_eq_iff text_row_def rewritten_def text_value_def Let_def)

lemma replace_row_rewritten:
  "replace_row B col fnd rep = rewritten (replace_value B col fnd rep) col"
  by (auto simp: fun_eq_iff replace_row_def rewritten_def replace_value_def Let_def)

lemma extract_row_rewritten: "extract_row B col pt = rewritten (extract_value B col pt) col"
  by (auto simp: fun_eq_iff extract_row_def rewritten_def extract_value_def Let_def
      split: option.splits)

lemma round_row_rewritten: "round_row B col factor = rewritten (round_value B col factor) col"
  by (auto simp: fun_eq_iff round_row_def rewritten_def round_value_def split: jsnum.splits)

lemma scale_row_rewritten:
  "scale_row B col mn mx lo hi = rewritten (scale_value B col mn mx lo hi) col"
  by (auto simp: fun_eq_iff scale_row_def rewritten_def scale_value_def Let_def
      split: jsnum.splits)

lemma store_remove_duplicates_rows:
  "map_option (map (preview_row S)) (store_remove_duplicates B S seen rs) =
     remove_duplicates B seen (map (preview_row S) rs)"
proof (induction rs arbitrary: seen)
  case Nil
  show ?case by simp
next
  case (Cons r rs)
  show ?case
  proof (cases "stableKey B (row_values (preview_row S r))")
    case None
    then show ?thesis by simp
  next
    case (Some key)
    show ?thesis
    proof (cases "key \<in> set seen")
      case True
      with Some Cons.IH [of seen] show ?thesis by simp
    next
      case False
      with Some Cons.IH [of "key # seen", symmetric] show ?thesis
        by (cases "store_remove_duplicates B S (key # seen) rs") simp_all
    qed
  qed
qed

lemma store_remove_duplicates_allocated:
  "store_remove_duplicates B S seen rs = Some rs' \<Longrightarrow> allocated S rs \<Longrightarrow> allocated S rs'"
proof (induction rs arbitrary: seen rs')
  case Nil
  then show ?case by simp
next
  case (Cons r rs)
  then show ?case
    by (auto simp: allocated_def split: option.splits if_splits)
qed

lemma rows_of_simps:
  "numericCache (rows_of S hst) = cache hst"
  "processed (rows_of S hst) = map (preview_row S) (row_refs hst)"
  by (simp_all add: rows_of_def)

lemma rewrite_step:
  assumes al: "allocated S (row_refs hst)"
    and m: "map_refs (rewrite_row next_value col) (row_refs hst) S = (refs', S')"
  shows "rows_of S' (hst\<lparr>row_refs := refs'\<rparr>) =
           (rows_of S hst)\<lparr>processed := map (rewritten next_value col) (processed (rows_of S hst))\<rparr>
       \<and> unchanged_before S S' \<and> allocated S' refs'"
  using map_rewrite_rows [OF al m] by (simp add: rows_of_def)

lemma store_apply_action_refines:
  assumes al: "allocated S (row_refs hst)"
  shows "case store_apply_action B S hst a of
           None \<Rightarrow> apply_action B (rows_of S hst) a = None
         | Some (S', hst') \<Rightarrow>
             apply_action B (rows_of S hst) a = Some (rows_of S' hst')
             \<and> unchanged_before S S' \<and> allocated S' (row_refs hst')"
proof -
  define col where "col = key_of (columnName (payload a))"
  have rw: "case (let (refs', S') = map_refs (rewrite_row next_value col) (row_refs hst) S
                  in Some (S', hst\<lparr>row_refs := refs'\<rparr>)) of
           None \<Rightarrow> False
         | Some (S', hst') \<Rightarrow>
             rows_of S' hst' =
               (rows_of S hst)\<lparr>processed := map (rewritten next_value col) (processed (rows_of S hst))\<rparr>
             \<and> unchanged_before S S' \<and> allocated S' (row_refs hst')" for next_value
  proof -
    obtain refs' S' where m: "map_refs (rewrite_row next_value col) (row_refs hst) S = (refs', S')"
      by (cases "map_refs (rewrite_row next_value col) (row_refs hst) S")
    from rewrite_step [OF al m] m show ?thesis by simp
  qed
  show ?thesis
  proof (cases "action_type a")
    case REMOVE_DUPLICATES
    show ?thesis
    proof (cases "store_remove_duplicates B S [] (row_refs hst)")
      case None
      with store_remove_duplicates_rows [of S B "[]" "row_refs hst"] REMOVE_DUPLICATES
      show ?thesis by (simp add: store_apply_action_def apply_action_def rows_of_def)
    next
      case (Some refs')
      with store_remove_duplicates_rows [of S B "[]" "row_refs hst"]
      have "remove_duplicates B [] (map (preview_row S) (row_refs hst)) = Some (map (preview_row S) refs')"
        by simp
      with Some REMOVE_DUPLICATES store_remove_duplicates_allocated [OF Some al]
      show ?thesis
        by (simp add: store_apply_action_def apply_action_def rows_of_def unchanged_before_refl)
    qed
  next
    case FILL_MISSING
    show ?thesis
    proof (cases "fill_replacement B (rows_of S hst) col (payload a)")
      case None
      with FILL_MISSING show ?thesis
        by (simp add: store_apply_action_def apply_action_def col_def)
    next
      case (Some res)
      obtain v st' where res: "res = (v, st')" by (cases res)
      obtain refs' S' where m: "map_refs (rewrite_row (fill_value col v) col) (row_refs hst) S = (refs', S')"
        by (cases "map_refs (rewrite_row (fill_value col v) col) (row_refs hst) S")
      from map_rewrite_rows [OF al m] Some res FILL_MISSING m show ?thesis
        by (simp add: store_apply_action_def apply_action_def col_def [symmetric] rows_of_def
            fill_row_rewritten)
    qed
  next
    case CHANGE_TYPE
    with rw [of "change_type_value B col (newType (payload a))"] show ?thesis
      by (auto simp: store_apply_action_def apply_action_def col_def [symmetric] Let_def
          change_type_row_rewritten split: option.splits prod.splits)
  next
    case DROP_COLUMN
    obtain refs' S' where m: "map_refs (store_drop_row col) (row_refs hst) S = (refs', S')"
      by (cases "map_refs (store_drop_row col) (row_refs hst) S")
    from map_drop_rows [OF al m] DROP_COLUMN m show ?thesis
      by (simp add: store_apply_action_def apply_action_def col_def [symmetric] rows_of_def)
  next
    case TRIM_WHITESPACE
    with rw [of "text_value (trim B) col"] show ?thesis
      by (auto simp: store_apply_action_def apply_action_def col_def [symmetric] Let_def
          text_row_rewritten split: option.splits prod.splits)
  next
    case LOWERCASE
    with rw [of "text_value (lower B) col"] show ?thesis
      by (auto simp: store_apply_action_def apply_action_def col_def [symmetric] Let_def
          text_row_rewritten split: option.splits prod.splits)
  next
    case UPPERCASE
    with rw [of "text_value (upper B) col"] show ?thesis
      by (auto simp: store_apply_action_def apply_action_def col_def [symmetric] Let_def
          text_row_rewritten split: option.splits prod.splits)
  next
    case REMOVE_NON_ALPHANUM
    with rw [of "text_value (removeNonAlphanum B) col"] show ?thesis
      by (auto simp: store_apply_action_def apply_action_def col_def [symmetric] Let_def
          text_row_rewritten split: option.splits prod.splits)
  next
    case CAPITALIZE_WORDS
    with rw [of "text_value (capitalizeWords B) col"] show ?thesis
      by (auto simp: store_apply_action_def apply_action_def col_def [symmetric] Let_def
          text_row_rewritten split: option.splits prod.splits)
  next
    case REPLACE_SUBSTRING
    with rw [of "replace_value B col (find (payload a)) (replaceWith (payload a))"] show ?thesis
      by (auto simp: store_apply_action_def apply_action_def col_def [symmetric] Let_def
          replace_row_rewritten split: option.splits prod.splits)
  next
    case EXTRACT_DATE_PART
    with rw [of "extract_value B col (part (payload a))"] show ?thesis
      by (auto simp: store_apply_action_def apply_action_def col_def [symmetric] Let_def
          extract_row_rewritten split: option.splits prod.splits)
  next
    case NUMBER_ROUND
    with rw [of "round_value B col (10 powr (case roundTo (payload a) of None \<Rightarrow> 0 | Some n \<Rightarrow> n))"]
    show ?thesis
      by (auto simp: store_apply_action_def apply_action_def col_def [symmetric] Let_def
          round_row_rewritten split: option.splits prod.splits)
  next
    case NUMBER_SCALE
    show ?thesis
    proof (cases "finite_values (column_numbers B (map (preview_row S) (row_refs hst)) col) = []")
      case True
      with NUMBER_SCALE al show ?thesis
        by (simp add: store_apply_action_def apply_action_def col_def [symmetric] Let_def
            number_scale_def rows_of_def unchanged_before_refl)
    next
      case False
      define fs where "fs = finite_values (column_numbers B (map (preview_row S) (row_refs hst)) col)"
      from False NUMBER_SCALE
        rw [of "scale_value B col (min_list_js fs) (max_list_js fs)
                  (case scaleMin (payload a) of None \<Rightarrow> 0 | Some m \<Rightarrow> m)
                  (case scaleMax (payload a) of None \<Rightarrow> 1 | Some m \<Rightarrow> m)"]
      show ?thesis
        by (auto simp: store_apply_action_def apply_action_def col_def [symmetric] Let_def
            number_scale_def scale_row_rewritten fs_def rows_of_simps
            split: option.splits prod.splits)
    qed
  qed
qed

lemma store_run_actions_refines:
  "allocated S (row_refs hst) \<Longrightarrow>
   (case store_run_actions B S hst actions of
      None \<Rightarrow> run_actions B (rows_of S hst) actions = None
    | Some (S', hst') \<Rightarrow>
        run_actions B (rows_of S hst) actions = Some (rows_of S' hst')
        \<and> unchanged_before S S' \<and> allocated S' (row_refs hst'))"
proof (induction actions arbitrary: S hst)
  case Nil
  then show ?case by (simp add: unchanged_before_refl)
next
  case (Cons a actions)
  show ?case
  proof (cases "store_apply_action B S hst a")
    case None
    with store_apply_action_refines [OF Cons.prems, of B a] show ?thesis by simp
  next
    case (Some res)
    obtain S1 hst1 where res: "res = (S1, hst1)" by (cases res)
    from store_apply_action_refines [OF Cons.prems, of B a] Some res
    have a: "apply_action B (rows_of S hst) a = Some (rows_of S1 hst1)"
      and u: "unchanged_before S S1" and al: "allocated S1 (row_refs hst1)" by simp_all
    from Cons.IH [OF al] show ?thesis
      using Some res a u
      by (auto split: option.splits intro: unchanged_before_trans)
  qed
qed

lemma store_preview_refines:
  assumes al: "allocated S ds"
  shows "shown (store_preview B S ds Q) = preview B \<lparr>columns = cs, data = map (data_row S) ds\<rparr> Q
       \<and> (\<forall>S' p. store_preview B S ds Q = Some (S', p) \<longrightarrow>
            unchanged_before S S' \<and> allocated S' (preview_refs p))"
proof -
  obtain refs S0 where w: "map_refs wrap_row ds S = (refs, S0)"
    by (cases "map_refs wrap_row ds S")
  from map_wrap_rows [OF al w] have u0: "unchanged_before S S0" and a0: "allocated S0 refs"
    and rows0: "map (preview_row S0) refs =
      map (map (\<lambda>(key, v). (key, \<lparr>cell_value = v, isChanged = False\<rparr>))) (map (data_row S) ds)"
    by simp_all
  define hst0 where "hst0 = \<lparr>cache = Map.empty, row_refs = refs\<rparr>"
  have init: "rows_of S0 hst0 = initial_state \<lparr>columns = cs, data = map (data_row S) ds\<rparr>"
    by (simp add: rows_of_def hst0_def initial_state_def initial_rows_def rows0)
  have a0': "allocated S0 (row_refs hst0)" using a0 by (simp add: hst0_def)
  show ?thesis
  proof (cases "store_run_actions B S0 hst0 Q")
    case None
    with store_run_actions_refines [OF a0', of B Q] w show ?thesis
      by (simp add: store_preview_def preview_def shown_def init hst0_def [symmetric])
  next
    case (Some res)
    obtain S1 hst1 where res: "res = (S1, hst1)" by (cases res)
    from store_run_actions_refines [OF a0', of B Q] Some res
    have r: "run_actions B (initial_state \<lparr>columns = cs, data = map (data_row S) ds\<rparr>) Q
              = Some (rows_of S1 hst1)"
      and u1: "unchanged_before S0 S1" and a1: "allocated S1 (row_refs hst1)"
      by (simp_all add: init)
    have u: "unchanged_before S S1" using u0 u1 by (rule unchanged_before_trans)
    show ?thesis
      using w Some res r u a1
      by (auto simp: store_preview_def preview_def shown_def hst0_def [symmetric] Let_def
          rows_of_simps comp_def split: option.splits)
  qed
qed

text \<open>
  Claim C9. Let the rows of a dataset be objects of a store, and let the queue be executed
  over them. The preview that results, read from the store the run leaves, is the preview
  of the executor on values: it is determined by the contents of the rows and by the kinds
  and payloads of the queued actions. So two runs yield the same cell values, change flags
  and statistics, or fail both, whatever else the two stores hold, wherever the rows lie in
  them, and whichever identifiers (drawn from the clock and a random number) the actions
  carry. A run changes no object that existed before it, the rows of the dataset among
  them; hence a second run, on the store that the first run has left, starts from the same
  dataset, yields the same preview in new row objects, and leaves the rows of the first
  preview as they are. The platform functions are functions of their arguments; the time
  zone, on which the reading of a date depends, is the same in both runs.
\<close>

theorem executor_runs_agree:
  fixes Q Q' :: "CleaningAction list"
  assumes S: "allocated S ds" and T: "allocated T ds'"
    and same: "map (data_row T) ds' = map (data_row S) ds"
    and kinds: "map action_type Q = map action_type Q'"
    and payloads: "map payload Q = map payload Q'"
  shows "shown (store_preview B S ds Q) = preview B \<lparr>columns = cs, data = map (data_row S) ds\<rparr> Q
       \<and> shown (store_preview B T ds' Q') = shown (store_preview B S ds Q)
       \<and> (\<forall>S1 p1. store_preview B S ds Q = Some (S1, p1) \<longrightarrow>
            unchanged_before S S1
            \<and> map (data_row S1) ds = map (data_row S) ds
            \<and> (\<exists>S2 p2. store_preview B S1 ds Q' = Some (S2, p2)
                  \<and> map (preview_row S2) (preview_refs p2) = map (preview_row S1) (preview_refs p1)
                  \<and> preview_stats p2 = preview_stats p1
                  \<and> map (preview_row S2) (preview_refs p1) = map (preview_row S1) (preview_refs p1)))"
proof (intro conjI allI impI)
  let ?D = "\<lparr>columns = cs, data = map (data_row S) ds\<rparr>"
  have cong: "preview B ?D Q' = preview B ?D Q"
    using run_actions_cong [OF kinds payloads] by (simp add: preview_def)
  show first: "shown (store_preview B S ds Q) = preview B ?D Q"
    using store_preview_refines [OF S] by blast
  show "shown (store_preview B T ds' Q') = shown (store_preview B S ds Q)"
    using store_preview_refines [OF T, of B Q' cs] first cong by (simp add: same)
  fix S1 p1
  assume run: "store_preview B S ds Q = Some (S1, p1)"
  from store_preview_refines [OF S, of B Q cs] run
  have u: "unchanged_before S S1" and a1: "allocated S1 (preview_refs p1)" by blast+
  show "unchanged_before S S1" by (rule u)
  show d1: "map (data_row S1) ds = map (data_row S) ds"
    using u S by (rule unchanged_data_rows)
  have S1: "allocated S1 ds" using u S by (rule unchanged_allocated)
  from store_preview_refines [OF S1, of B Q' cs] d1 cong first run
  have second: "shown (store_preview B S1 ds Q') = shown (Some (S1, p1))"
    and frame: "\<forall>S' p. store_preview B S1 ds Q' = Some (S', p) \<longrightarrow> unchanged_before S1 S'"
    by simp_all
  then obtain S2 p2 where run2: "store_preview B S1 ds Q' = Some (S2, p2)"
    by (cases "store_preview B S1 ds Q'") (auto simp: shown_def)
  from frame run2 have u2: "unchanged_before S1 S2" by blast
  have "map (preview_row S2) (preview_refs p1) = map (preview_row S1) (preview_refs p1)"
    using u2 a1 by (rule unchanged_preview_rows)
  with second run2
  show "\<exists>S2 p2. store_preview B S1 ds Q' = Some (S2, p2)
      \<and> map (preview_row S2) (preview_refs p2) = map (preview_row S1) (preview_refs p1)
      \<and> preview_stats p2 = preview_stats p1
      \<and> map (preview_row S2) (preview_refs p1) = map (preview_row S1) (preview_refs p1)"
    by (auto simp: shown_def)
qed

lemma queued_fill_preview:
  "preview B age_data queued_fill =
     Some \<lparr>preview_data = age_filled, stats = \<lparr>missing = 0, dups = 0\<rparr>\<rparr>"
  by (simp add: age_data_def age_filled_def queued_fill_def exec_simps ensureNumericCache_def
      Object_prototype_keys_def column_numbers_def parseNumberLike_def mean_c_def)

theorem executor_runs_agree_witness:
  "allocated age_store [0, 1, 2] \<and> allocated busy_store [1, 3, 4]
   \<and> map (data_row busy_store) [1, 3, 4] = map (data_row age_store) [0, 1, 2]
   \<and> map action_type queued_fill = map action_type queued_fill_again
   \<and> map payload queued_fill = map payload queued_fill_again
   \<and> queued_fill \<noteq> queued_fill_again
   \<and> (\<forall>B. shown (store_preview B busy_store [1, 3, 4] queued_fill_again)
             = shown (store_preview B age_store [0, 1, 2] queued_fill)
         \<and> shown (store_preview B age_store [0, 1, 2] queued_fill)
             = Some \<lparr>preview_data = age_filled, stats = \<lparr>missing = 0, dups = 0\<rparr>\<rparr>)"
proof -
  have S: "allocated age_store [0, 1, 2]" by (simp add: allocated_def age_store_def)
  have T: "allocated busy_store [1, 3, 4]" by (simp add: allocated_def busy_store_def)
  have same: "map (data_row busy_store) [1, 3, 4] = map (data_row age_store) [0, 1, 2]"
    by (simp add: data_row_def busy_store_def age_store_def)
  have kinds: "map action_type queued_fill = map action_type queued_fill_again"
    and payloads: "map payload queued_fill = map payload queued_fill_again"
    by (simp_all add: queued_fill_def queued_fill_again_def)
  have d: "\<lparr>columns = [''age''], data = map (data_row age_store) [0, 1, 2]\<rparr> = age_data"
    by (simp add: data_row_def age_store_def age_data_def)
  note t = executor_runs_agree [OF S T same kinds payloads, where cs = "[''age'']"]
  have "shown (store_preview B busy_store [1, 3, 4] queued_fill_again)
             = shown (store_preview B age_store [0, 1, 2] queued_fill)
         \<and> shown (store_preview B age_store [0, 1, 2] queued_fill)
             = Some \<lparr>preview_data = age_filled, stats = \<lparr>missing = 0, dups = 0\<rparr>\<rparr>" for B
  proof -
    from t [of B] have "shown (store_preview B age_store [0, 1, 2] queued_fill) =
        preview B \<lparr>columns = [''age''], data = map (data_row age_store) [0, 1, 2]\<rparr> queued_fill"
      and eq: "shown (store_preview B busy_store [1, 3, 4] queued_fill_again)
             = shown (store_preview B age_store [0, 1, 2] queued_fill)"
      by blast+
    then have "shown (store_preview B age_store [0, 1, 2] queued_fill) = preview B age_data queued_fill"
      by (simp only: d)
    with eq queued_fill_preview [of B] show ?thesis by simp
  qed
  moreover have "queued_fill \<noteq> queued_fill_again"
    by (simp add: queued_fill_def queued_fill_again_def)
  ultimately show ?thesis using S T same kinds payloads by simp
qed


section \<open>The change flags\<close>







section \<open>Dropping a column\<close>

text \<open>The header of the export never names a column that a drop action of the queue names.\<close>

lemma dropped_not_exported:
  "a \<in> set actions \<Longrightarrow> action_type a = DROP_COLUMN \<Longrightarrow> columnName (payload a) = Some c \<Longrightarrow>
   c \<noteq> [] \<Longrightarrow> c \<notin> set (finalColumns D actions)"
  by (force simp: finalColumns_def droppedColumns_def key_of_def)

text \<open>
  Claim C5 fails on the executor: a fill-missing step queued after the drop of the same
  column finds the undefined marker, which is a missing value, and writes its replacement
  over it. The column is then back among the effective keys of every row (with the value
  0 here), although the export and the commit of the recipe treat it as dropped: the
  header of the export is empty.
\<close>

theorem dropped_column_refilled:
  "map_option (\<lambda>pv. map flatten_row (preview_data pv)) (preview B drop_fill_data drop_fill_queue)
     = Some [[(''c'', VNum (Fin 0))]]
   \<and> finalColumns drop_fill_data drop_fill_queue = []
   \<and> exportCSV B drop_fill_data drop_fill_queue = Some [CHR 0x0A]"
  by (simp add: drop_fill_data_def drop_fill_queue_def exec_simps finalColumns_def
      droppedColumns_def exportCSV_def objectsToCSV_def csv_header_def)


section \<open>Filling missing values with the mean\<close>

lemma ensureNumericCache_other:
  "ensureNumericCache B st c = (res, st') \<Longrightarrow> c \<noteq> col \<Longrightarrow>
   numericCache st' col = numericCache st col"
  by (auto simp: ensureNumericCache_def Let_def split: option.splits if_splits)

lemma ensureNumericCache_rows:
  "ensureNumericCache B st c = (res, st') \<Longrightarrow> processed st' = processed st"
  by (auto simp: ensureNumericCache_def Let_def split: option.splits if_splits)

lemma ensureNumericCache_fresh:
  "numericCache st c = None \<Longrightarrow> c \<notin> set Object_prototype_keys \<Longrightarrow>
   fst (ensureNumericCache B st c) = Numbers (column_numbers B (processed st) c)"
  by (simp add: ensureNumericCache_def Let_def)

lemma ensureNumericCache_inherited:
  "numericCache st c = None \<Longrightarrow> c \<in> set Object_prototype_keys \<Longrightarrow>
   ensureNumericCache B st c = (Inherited, st)"
  by (simp add: ensureNumericCache_def)

text \<open>Only a mean or median fill of a column writes the cache entry of that column.\<close>

lemma fill_replacement_cache:
  assumes "fill_replacement B st c p = Some (v, st')"
    and "strategy p = Some Mean \<or> strategy p = Some Median \<Longrightarrow> c \<noteq> col"
  shows "numericCache st' col = numericCache st col"
proof (cases "case strategy p of None \<Rightarrow> Zero | Some s \<Rightarrow> s")
  case Mean
  then have s: "strategy p = Some Mean" by (auto split: option.splits)
  obtain res st1 where e: "ensureNumericCache B st c = (res, st1)"
    by (cases "ensureNumericCache B st c")
  from assms(1) Mean e have "st' = st1"
    by (auto simp: fill_replacement_def split: cached.splits)
  with ensureNumericCache_other [OF e] assms(2) s show ?thesis by simp
next
  case Median
  then have s: "strategy p = Some Median" by (auto split: option.splits)
  obtain res st1 where e: "ensureNumericCache B st c = (res, st1)"
    by (cases "ensureNumericCache B st c")
  from assms(1) Median e have "st' = st1"
    by (auto simp: fill_replacement_def split: cached.splits)
  with ensureNumericCache_other [OF e] assms(2) s show ?thesis by simp
next
  case Custom
  with assms(1) show ?thesis by (simp add: fill_replacement_def)
next
  case Zero
  with assms(1) show ?thesis by (simp add: fill_replacement_def)
qed

lemma apply_action_cache:
  assumes "apply_action B st a = Some st'" and "\<not> uses_cache col a"
  shows "numericCache st' col = numericCache st col"
proof (cases "action_type a")
  case FILL_MISSING
  with assms(1) obtain v st1
    where f: "fill_replacement B st (key_of (columnName (payload a))) (payload a) = Some (v, st1)"
      and st': "numericCache st' = numericCache st1"
    by (auto simp: apply_action_def Let_def split: option.splits)
  have "numericCache st1 col = numericCache st col"
    using f by (rule fill_replacement_cache) (use assms(2) FILL_MISSING in \<open>auto simp: uses_cache_def\<close>)
  with st' show ?thesis by simp
qed (use assms(1) in \<open>auto simp: apply_action_def Let_def\<close>)

lemma run_actions_cache:
  "run_actions B st actions = Some st' \<Longrightarrow> list_all (\<lambda>a. \<not> uses_cache col a) actions \<Longrightarrow>
   numericCache st' col = numericCache st col"
proof (induction actions arbitrary: st)
  case Nil
  then show ?case by simp
next
  case (Cons a actions)
  then obtain st1 where a: "apply_action B st a = Some st1"
    and r: "run_actions B st1 actions = Some st'"
    by (auto split: option.splits)
  from Cons.prems(2) have na: "\<not> uses_cache col a"
    and rest: "list_all (\<lambda>a. \<not> uses_cache col a) actions" by simp_all
  have "numericCache st1 col = numericCache st col"
    using a na by (rule apply_action_cache)
  moreover have "numericCache st' col = numericCache st1 col"
    using r rest by (rule Cons.IH)
  ultimately show ?case by simp
qed

lemma foldl_add_sum_list: "foldl (\<lambda>a b. a + b) z xs = z + sum_list xs" for z :: real
  by (induction xs arbitrary: z) simp_all

lemma mean_c_value:
  "mean_c arr = (if finite_values arr = [] then None
                 else Some (sum_list (finite_values arr) / real (length (finite_values arr))))"
  by (simp add: mean_c_def Let_def foldl_add_sum_list)

lemma nullish_not_number: "isNullish v \<Longrightarrow> \<not> strict_eq v (VNum n) \<and> \<not> same_instant v (VNum n)"
  by (cases v) auto

lemma fill_row_cells:
  "map_of (fill_row col (VNum n) row) k =
     (if k = col \<and> (\<exists>cell. map_of row col = Some cell \<and> isNullish (cell_value cell))
      then Some \<lparr>cell_value = VNum n, isChanged = True\<rparr> else map_of row k)"
  by (auto simp: fill_row_def setCell_def Let_def cell_of_def map_of_set_prop nullish_not_number
      split: option.splits)

lemma fill_row_same:
  "\<not> (\<exists>cell. map_of row col = Some cell \<and> isNullish (cell_value cell)) \<Longrightarrow>
   fill_row col v row = row"
  by (auto simp: fill_row_def split: option.splits)

text \<open>
  What the mean fill does when the cache holds nothing for its column. A fill-missing
  action with the mean strategy on column \<open>col\<close>, whose name is not one of the inherited
  properties of the cache, run after any steps \<open>pre\<close> of which none is a mean or median
  fill of that same column, completes, and with \<open>nums\<close> the finite values among the
  parsed numbers of the column in the rows as they are when the action runs and \<open>m\<close>
  their mean (0 when there is none): every row whose cell of the column is missing gets
  \<open>m\<close> in that cell, flagged as changed, and nothing else in it changes; every other
  row is left exactly as it was.
\<close>

lemma mean_fill_on_fresh_cache:
  assumes run: "run_actions B (initial_state D) pre = Some st"
    and fresh: "list_all (\<lambda>a. \<not> uses_cache col a) pre"
    and own: "col \<notin> set Object_prototype_keys"
    and a: "action_type a = FILL_MISSING" "strategy (payload a) = Some Mean"
      "columnName (payload a) = Some col"
    and nums: "nums = finite_values (column_numbers B (processed st) col)"
    and m: "m = (if nums = [] then 0 else sum_list nums / real (length nums))"
  shows "\<exists>st'. run_actions B (initial_state D) (pre @ [a]) = Some st'
           \<and> length (processed st') = length (processed st)
           \<and> (\<forall>i<length (processed st).
                 if \<exists>cell. map_of (processed st ! i) col = Some cell \<and> isNullish (cell_value cell)
                 then \<forall>k. map_of (processed st' ! i) k =
                        (if k = col then Some \<lparr>cell_value = VNum (Fin m), isChanged = True\<rparr>
                         else map_of (processed st ! i) k)
                 else processed st' ! i = processed st ! i)"
proof -
  have "numericCache st col = numericCache (initial_state D) col"
    using run fresh by (rule run_actions_cache)
  then have none: "numericCache st col = None" by (simp add: initial_state_def)
  obtain res st1 where e: "ensureNumericCache B st col = (res, st1)"
    by (cases "ensureNumericCache B st col")
  have res: "res = Numbers (column_numbers B (processed st) col)"
    using ensureNumericCache_fresh [OF none own, of B] e by simp
  have repl: "fill_replacement B st col (payload a) = Some (VNum (Fin m), st1)"
    using a(2) e res nums m by (simp add: fill_replacement_def mean_c_value)
  define st' where "st' = st1\<lparr>processed := map (fill_row col (VNum (Fin m))) (processed st)\<rparr>"
  have "apply_action B st a = Some st'"
    using a repl by (simp add: apply_action_def Let_def key_of_def st'_def)
  then have "run_actions B (initial_state D) (pre @ [a]) = Some st'"
    using run by (simp add: run_actions_append)
  moreover have "length (processed st') = length (processed st)" by (simp add: st'_def)
  moreover have "\<forall>i<length (processed st).
                 if \<exists>cell. map_of (processed st ! i) col = Some cell \<and> isNullish (cell_value cell)
                 then \<forall>k. map_of (processed st' ! i) k =
                        (if k = col then Some \<lparr>cell_value = VNum (Fin m), isChanged = True\<rparr>
                         else map_of (processed st ! i) k)
                 else processed st' ! i = processed st ! i"
    by (simp add: st'_def fill_row_cells fill_row_same)
  ultimately show ?thesis by blast
qed

text \<open>
  Claim C2 fails on the executor, in three ways.

  A cell that holds the empty string is a missing value for \<^verbatim>\<open>isNullish\<close>, and the
  help text of the fill step says that mean and median use the non-empty numeric values;
  but \<^verbatim>\<open>parseNumberLike\<close> turns the empty string into 0, which is finite and enters the
  mean. For the column 10, \<^verbatim>\<open>""\<close>, 30 the missing cell becomes 40/3, where the claim
  demands 20.

  The parsed numbers of a column are kept for the whole computation of the preview. The
  handler takes a column with the empty name for no column and so accepts a second mean
  fill of it: in \<open>unnamed_queue\<close> the column holds no number when the last step runs,
  and the step writes the mean 20 of the numbers the column held at first.

  For a column named \<^verbatim>\<open>constructor\<close> the lookup in the cache finds the inherited
  property, and \<^verbatim>\<open>mean\<close> throws a TypeError: no preview is computed.
\<close>

theorem fill_missing_mean_diverges:
  "map_option (\<lambda>pv. map (\<lambda>r. cell_of r ''age'') (preview_data pv))
       (preview B blank_age_data [fill_on ''age'' Mean])
     = Some [VNum (Fin 10), VNum (Fin (40 / 3)), VNum (Fin 30)]
   \<and> map action_id unnamed_queue = [''1'', ''2'', ''3'']
   \<and> map_option (\<lambda>st. finite_values (column_numbers B (processed st) []))
         (run_actions B (initial_state unnamed_data) (butlast unnamed_queue))
       = Some []
   \<and> map_option (\<lambda>pv. map (\<lambda>r. cell_of r []) (preview_data pv))
         (preview B unnamed_data unnamed_queue)
       = Some [VNum (Fin 20), VNum (Fin 20), VNum (Fin 20)]
   \<and> preview B constructor_data [fill_on ''constructor'' Mean] = None"
proof -
  have q: "unnamed_queue =
      [action_spec.extend (fill_on [] Mean) (CleaningAction.fields ''1''),
       action_spec.extend (drop_column []) (CleaningAction.fields ''2''),
       action_spec.extend (fill_on [] Mean) (CleaningAction.fields ''3'')]"
    by (simp add: unnamed_queue_def handleAddAction_def isRedundant_def similar_step_def
        fill_on_def drop_column_def step_def empty_payload_def Let_def
        action_spec.extend_def CleaningAction.fields_def)
  have "map_option (\<lambda>pv. map (\<lambda>r. cell_of r ''age'') (preview_data pv))
       (preview B blank_age_data [fill_on ''age'' Mean])
     = Some [VNum (Fin 10), VNum (Fin (40 / 3)), VNum (Fin 30)]"
    by (simp add: blank_age_data_def exec_simps ensureNumericCache_def Object_prototype_keys_def
        column_numbers_def parseNumberLike_def Number_of_string_def mean_c_def)
  moreover have "map action_id unnamed_queue = [''1'', ''2'', ''3'']"
    by (simp add: q action_spec.extend_def CleaningAction.fields_def)
  moreover have "map_option (\<lambda>st. finite_values (column_numbers B (processed st) []))
         (run_actions B (initial_state unnamed_data) (butlast unnamed_queue))
       = Some []"
    by (simp add: q unnamed_data_def exec_simps ensureNumericCache_def Object_prototype_keys_def
        column_numbers_def parseNumberLike_def mean_c_def
        action_spec.extend_def CleaningAction.fields_def)
  moreover have "map_option (\<lambda>pv. map (\<lambda>r. cell_of r []) (preview_data pv))
         (preview B unnamed_data unnamed_queue)
       = Some [VNum (Fin 20), VNum (Fin 20), VNum (Fin 20)]"
    by (simp add: q unnamed_data_def exec_simps ensureNumericCache_def Object_prototype_keys_def
        column_numbers_def parseNumberLike_def mean_c_def
        action_spec.extend_def CleaningAction.fields_def)
  moreover have "preview B constructor_data [fill_on ''constructor'' Mean] = None"
    by (simp add: constructor_data_def exec_simps ensureNumericCache_def Object_prototype_keys_def)
  ultimately show ?thesis by simp
qed


section \<open>Min-max scaling\<close>









end
